theory Spec2Isabelle
  imports Complex_Main
begin

section \<open>The simulated calendar\<close>

text \<open>
  The simulation owns a calendar of \<^verbatim>\<open>datetime.date\<close> values and moves through it with
  \<^verbatim>\<open>timedelta(days=n)\<close>. A date is its year, month and day; adding and subtracting days
  steps through the proleptic Gregorian calendar, and \<open>toordinal\<close> is the day number that
  Python's dates are ordered by.
\<close>

datatype date = Date (year: int) (month: nat) (day: nat)

definition is_leap :: "int \<Rightarrow> bool" where
  "is_leap y \<longleftrightarrow> y mod 4 = 0 \<and> (y mod 100 \<noteq> 0 \<or> y mod 400 = 0)"

definition days_in_month :: "int \<Rightarrow> nat \<Rightarrow> nat" where
  "days_in_month y m =
     (if m = 2 then (if is_leap y then 29 else 28)
      else if m = 4 \<or> m = 6 \<or> m = 9 \<or> m = 11 then 30 else 31)"

definition next_day :: "date \<Rightarrow> date" where
  "next_day d =
     (if day d < days_in_month (year d) (month d) then Date (year d) (month d) (day d + 1)
      else if month d < 12 then Date (year d) (month d + 1) 1
      else Date (year d + 1) 1 1)"

definition prev_day :: "date \<Rightarrow> date" where
  "prev_day d =
     (if 1 < day d then Date (year d) (month d) (day d - 1)
      else if 1 < month d
        then Date (year d) (month d - 1) (days_in_month (year d) (month d - 1))
      else Date (year d - 1) 12 31)"

primrec plus_days :: "date \<Rightarrow> nat \<Rightarrow> date" where
  "plus_days d 0 = d"
| "plus_days d (Suc n) = next_day (plus_days d n)"

primrec minus_days :: "date \<Rightarrow> nat \<Rightarrow> date" where
  "minus_days d 0 = d"
| "minus_days d (Suc n) = prev_day (minus_days d n)"

definition days_before_year :: "int \<Rightarrow> int" where
  "days_before_year y = (y - 1) * 365 + (y - 1) div 4 - (y - 1) div 100 + (y - 1) div 400"

primrec days_before_month :: "int \<Rightarrow> nat \<Rightarrow> nat" where
  "days_before_month y 0 = 0"
| "days_before_month y (Suc m) =
     (if m = 0 then 0 else days_before_month y m + days_in_month y m)"

definition toordinal :: "date \<Rightarrow> int" where
  "toordinal d =
     days_before_year (year d) + int (days_before_month (year d) (month d)) + int (day d)"

definition date_le :: "date \<Rightarrow> date \<Rightarrow> bool" where
  "date_le a b \<longleftrightarrow> toordinal a \<le> toordinal b"

section \<open>Strings of the purchase-order number\<close>

definition upper_char :: "char \<Rightarrow> char" where
  "upper_char c =
     (let n = (of_char c :: nat) in if 97 \<le> n \<and> n \<le> 122 then char_of (n - 32) else c)"

definition upper :: "string \<Rightarrow> string" where
  "upper s = map upper_char s"

definition digit_char :: "nat \<Rightarrow> char" where
  "digit_char n = char_of (48 + n mod 10)"

fun str_nat :: "nat \<Rightarrow> string" where
  "str_nat n = (if n < 10 then [digit_char n] else str_nat (n div 10) @ [digit_char n])"

definition pad02 :: "nat \<Rightarrow> string" where
  "pad02 n = (if n < 10 then CHR ''0'' # str_nat n else str_nat n)"

section \<open>Requests and structured results of the remote service\<close>

record targeting_overlay =
  geography :: "string list"
  content_categories_exclude :: "string list"

record buy_request =
  product_ids :: "string list"
  flight_start_date :: date
  flight_end_date :: date
  total_budget :: real
  targeting :: targeting_overlay
  po_number :: string

record creative =
  creative_id :: string
  format_id :: string
  content_uri :: string

record performance_entry =
  product_id :: string
  performance_index :: real
  confidence_score :: real

text \<open>
  One constructor per remote tool the simulation calls, carrying the \<^verbatim>\<open>req\<close> payload.
  \<open>media_buy_id\<close> is the run's \<^verbatim>\<open>Optional[str]\<close> field, passed as it is.
\<close>

datatype request =
    ListProducts string
  | CreateMediaBuy buy_request
  | SubmitCreatives "string option" "creative list"
  | CheckCreativeStatus "string option list"
  | GetMediaBuyDelivery "string option" date
  | UpdatePerformanceIndex "string option" "performance_entry list"
  | UpdateMediaBuy "string option" targeting_overlay

record product =
  prod_product_id :: "string option"
  prod_name :: "string option"
  prod_delivery_type :: "string option"
  prod_cpm :: "real option"
  prod_is_fixed_price :: "bool option"

record creative_status =
  st_creative_id :: "string option"
  st_status :: "string option"

text \<open>
  A structured result is a dictionary read only through \<^verbatim>\<open>.get\<close>: every key the simulation
  reads is a field that may be missing. Fields that are present have the type the service's
  schema gives them. Numbers are exact reals and integers; the rounding of Python's floats
  is not modelled.
\<close>

record response =
  r_products :: "product list option"
  r_media_buy_id :: "string option"
  r_statuses :: "creative_status list option"
  r_status :: "string option"
  r_spend :: "real option"
  r_impressions :: "int option"
  r_days_elapsed :: "int option"
  r_total_days :: "int option"
  r_pacing :: "string option"
  r_total_budget :: "real option"

definition empty_response :: response where
  "empty_response =
     \<lparr>r_products = None, r_media_buy_id = None, r_statuses = None, r_status = None,
      r_spend = None, r_impressions = None, r_days_elapsed = None, r_total_days = None,
      r_pacing = None, r_total_budget = None\<rparr>"

definition get :: "'a option \<Rightarrow> 'a \<Rightarrow> 'a" where
  "get field dflt = (case field of None \<Rightarrow> dflt | Some v \<Rightarrow> v)"

section \<open>The remote service, the console and the log of a run\<close>

text \<open>
  The remote service is any function from the requests issued so far (the current one last)
  to the outcome of \<^verbatim>\<open>client.call_tool\<close>: the call raises, or it returns a result object
  that has no \<^verbatim>\<open>structured_content\<close> (\<open>Result None\<close>) or has one (\<open>Result (Some r)\<close>),
  which is then a dictionary with fields of the types of the schemas. It may answer each
  call differently. The log of a run keeps, in order, the simulated days
  shown, the calls made with their results, and what is printed where the control flow
  branches or a quotient is computed; the remaining console output is not modelled.
\<close>

datatype call_outcome = Raises | Result "response option"

type_synonym server = "request list \<Rightarrow> call_outcome"

text \<open>The exceptions a run can raise, and Python's true division.\<close>

datatype error = MediaBuyCreationFailed | ZeroDivisionError

definition py_div :: "real \<Rightarrow> real \<Rightarrow> error + real" where
  "py_div a b = (if b = 0 then Inl ZeroDivisionError else Inr (a / b))"

text \<open>Python's \<^verbatim>\<open>int()\<close> of a float truncates towards zero.\<close>

definition py_int :: "real \<Rightarrow> int" where
  "py_int x = (if 0 \<le> x then \<lfloor>x\<rfloor> else \<lceil>x\<rceil>)"

text \<open>The content of the summary panel of the final report: empty, or its five lines.\<close>

datatype panel =
    EmptyPanel
  | Summary (campaign_id: "string option") (campaign_status: string) (total_spend: real)
      (total_impressions: int) (effective_cpm_shown: real)

datatype notice =
    ErrorCalling string
  | ProductsFound nat
  | NoProductsAvailable
  | MediaBuyCreated string
  | MediaBuyFailed
  | AllCreativesApproved
  | CampaignReady
  | UnexpectedStatus string
  | DayProgress int int real
  | EffectiveCPM real
  | TrendBar date int
  | PerformanceIndexUpdated real
  | UnderDelivering
  | OptimizationsApplied
  | OptimizationsFailed
  | OverDelivering
  | PacingOnTrack
  | CampaignSummary panel
  | BudgetUtilization real
  | ExcellentDelivery
  | GoodDelivery
  | UnderDelivery
  | LifecycleComplete

datatype event =
    ShowDay date
  | Call request response
  | Say notice

type_synonym log = "event list"

fun requests_of :: "log \<Rightarrow> request list" where
  "requests_of [] = []"
| "requests_of (Call req resp # es) = req # requests_of es"
| "requests_of (e # es) = requests_of es"

definition show_day :: "date \<Rightarrow> log \<Rightarrow> log" where
  "show_day current_date lg = lg @ [ShowDay current_date]"

definition say :: "notice \<Rightarrow> log \<Rightarrow> log" where
  "say n lg = lg @ [Say n]"

text \<open>
  \<^verbatim>\<open>_call_tool\<close>: the structured content of the result, the empty dictionary when the
  result has none, and, when the call raised, an error line and the empty dictionary. The
  name of the tool called is kept with each request.
\<close>

fun tool_name :: "request \<Rightarrow> string" where
  "tool_name (ListProducts brief) = ''list_products''"
| "tool_name (CreateMediaBuy req) = ''create_media_buy''"
| "tool_name (SubmitCreatives mb cs) = ''submit_creatives''"
| "tool_name (CheckCreativeStatus ids) = ''check_creative_status''"
| "tool_name (GetMediaBuyDelivery mb today) = ''get_media_buy_delivery''"
| "tool_name (UpdatePerformanceIndex mb ps) = ''update_performance_index''"
| "tool_name (UpdateMediaBuy mb overlay) = ''update_media_buy''"

definition tool_result :: "server \<Rightarrow> request list \<Rightarrow> response" where
  "tool_result srv reqs =
     (case srv reqs of
        Raises \<Rightarrow> empty_response
      | Result None \<Rightarrow> empty_response
      | Result (Some structured_content) \<Rightarrow> structured_content)"

definition call_events :: "server \<Rightarrow> request list \<Rightarrow> request \<Rightarrow> log" where
  "call_events srv reqs req =
     (case srv (reqs @ [req]) of
        Raises \<Rightarrow> [Say (ErrorCalling (tool_name req))]
      | Result content \<Rightarrow> []) @
     [Call req (tool_result srv (reqs @ [req]))]"

definition call_tool :: "server \<Rightarrow> request \<Rightarrow> log \<Rightarrow> response \<times> log" where
  "call_tool srv req lg =
     (tool_result srv (requests_of lg @ [req]), lg @ call_events srv (requests_of lg) req)"

section \<open>The simulation\<close>

record sim =
  principal_id :: string
  media_buy_id :: "string option"
  creative_ids :: "string option list"
  products :: "product list"
  planning_date :: date
  buy_date :: date
  creative_date :: date
  flight_start :: date
  flight_end :: date

definition init :: "string \<Rightarrow> sim" where
  "init pid =
     \<lparr>principal_id = pid, media_buy_id = None, creative_ids = [], products = [],
      planning_date = Date 2025 6 5, buy_date = Date 2025 6 15,
      creative_date = Date 2025 6 20, flight_start = Date 2025 8 1,
      flight_end = Date 2025 8 15\<rparr>"

subsection \<open>Phase 1: planning\<close>

definition planning_brief :: string where
  "planning_brief = ''Looking for video and audio inventory for pet food campaign''"

definition phase_1_planning :: "server \<Rightarrow> sim \<Rightarrow> log \<Rightarrow> sim \<times> log" where
  "phase_1_planning srv s lg =
     (let lg1 = show_day (planning_date s) lg;
          (products_response, lg2) = call_tool srv (ListProducts planning_brief) lg1;
          s' = s\<lparr>products := get (r_products products_response) []\<rparr>
      in if products s' \<noteq> [] then (s', say (ProductsFound (length (products s'))) lg2)
         else (s', say NoProductsAvailable lg2))"

subsection \<open>Phase 2: buying\<close>

definition make_buy_request :: "sim \<Rightarrow> buy_request" where
  "make_buy_request s =
     \<lparr>product_ids = [''prod_video_guaranteed_sports''],
      flight_start_date = flight_start s,
      flight_end_date = flight_end s,
      total_budget = 50000,
      targeting = \<lparr>geography = [''USA-CA'', ''USA-NY''],
                   content_categories_exclude = [''controversial'', ''politics'']\<rparr>,
      po_number = ''PO-'' @ upper (principal_id s) @ ''-''
                  @ str_nat (nat (year (flight_start s))) @ ''-''
                  @ pad02 (month (flight_start s))\<rparr>"

text \<open>Python's truth value of an \<^verbatim>\<open>Optional[str]\<close>: \<^verbatim>\<open>None\<close> and the empty string are false.\<close>

definition truthy :: "string option \<Rightarrow> bool" where
  "truthy v = (case v of None \<Rightarrow> False | Some x \<Rightarrow> x \<noteq> [])"

definition phase_2_buying :: "server \<Rightarrow> sim \<Rightarrow> log \<Rightarrow> (error + sim) \<times> log" where
  "phase_2_buying srv s lg =
     (let lg1 = show_day (buy_date s) lg;
          buy_request = make_buy_request s;
          (buy_response, lg2) = call_tool srv (CreateMediaBuy buy_request) lg1;
          s' = s\<lparr>media_buy_id := r_media_buy_id buy_response\<rparr>
      in if truthy (media_buy_id s')
         then (Inr s', say (MediaBuyCreated (the (media_buy_id s'))) lg2)
         else (Inl MediaBuyCreationFailed, say MediaBuyFailed lg2))"

subsection \<open>Phase 3: creative submission and approval checks\<close>

definition submitted_creatives :: "creative list" where
  "submitted_creatives =
     [\<lparr>creative_id = ''cr_purina_dog_30s_v1'', format_id = ''fmt_video_30s'',
       content_uri = ''https://cdn.purina.com/vast/dog_chow_30s_v1.xml''\<rparr>,
      \<lparr>creative_id = ''cr_purina_cat_30s_v1'', format_id = ''fmt_video_30s'',
       content_uri = ''https://cdn.purina.com/vast/cat_chow_30s_v1.xml''\<rparr>]"

text \<open>The loop over the statuses of the submit response: each one's id is appended.\<close>

fun record_statuses :: "creative_status list \<Rightarrow> sim \<Rightarrow> sim" where
  "record_statuses [] s = s"
| "record_statuses (status # rest) s =
     record_statuses rest (s\<lparr>creative_ids := creative_ids s @ [st_creative_id status]\<rparr>)"

text \<open>The inner loop of a check: the flag starts true and any other status clears it.\<close>

fun check_statuses :: "creative_status list \<Rightarrow> bool \<Rightarrow> bool" where
  "check_statuses [] all_approved = all_approved"
| "check_statuses (status # rest) all_approved =
     (let status_val = get (st_status status) ''unknown''
      in check_statuses rest (if status_val \<noteq> ''approved'' then False else all_approved))"

definition approval_days :: "sim \<Rightarrow> date list" where
  "approval_days s =
     [plus_days (creative_date s) 1, plus_days (creative_date s) 2,
      plus_days (creative_date s) 3]"

text \<open>The loop over the check dates; the \<^verbatim>\<open>break\<close> is the branch that does not recurse.\<close>

fun approval_checks :: "server \<Rightarrow> sim \<Rightarrow> date list \<Rightarrow> log \<Rightarrow> log" where
  "approval_checks srv s [] lg = lg"
| "approval_checks srv s (check_date # rest) lg =
     (let lg1 = show_day check_date lg;
          (status_response, lg2) = call_tool srv (CheckCreativeStatus (creative_ids s)) lg1;
          all_approved = check_statuses (get (r_statuses status_response) []) True
      in if all_approved then say AllCreativesApproved lg2
         else approval_checks srv s rest lg2)"

definition phase_3_creatives :: "server \<Rightarrow> sim \<Rightarrow> log \<Rightarrow> sim \<times> log" where
  "phase_3_creatives srv s lg =
     (let lg1 = show_day (creative_date s) lg;
          (submit_response, lg2) =
             call_tool srv (SubmitCreatives (media_buy_id s) submitted_creatives) lg1;
          statuses = get (r_statuses submit_response) [];
          s' = record_statuses statuses s
      in (s', approval_checks srv s' (approval_days s') lg2))"

subsection \<open>Phase 4: pre-flight\<close>

definition phase_4_pre_flight :: "server \<Rightarrow> sim \<Rightarrow> log \<Rightarrow> log" where
  "phase_4_pre_flight srv s lg =
     (let pre_flight_date = minus_days (flight_start s) 2;
          lg1 = show_day pre_flight_date lg;
          (delivery_response, lg2) =
             call_tool srv (GetMediaBuyDelivery (media_buy_id s) pre_flight_date) lg1;
          status = get (r_status delivery_response) ''unknown''
      in if status = ''scheduled'' then say CampaignReady lg2
         else say (UnexpectedStatus status) lg2)"

subsection \<open>Phase 5: in-flight monitoring\<close>

record daily_entry =
  dd_date :: date
  dd_spend :: real
  dd_impressions :: int
  dd_pacing :: string

definition monitoring_days :: "sim \<Rightarrow> date list" where
  "monitoring_days s =
     [flight_start s, plus_days (flight_start s) 2, plus_days (flight_start s) 5,
      plus_days (flight_start s) 8]"

text \<open>
  The two quotients of an iteration: the share of the flight elapsed, guarded by
  \<open>total_days > 0\<close>, and the effective CPM, which the caller guards by \<open>impressions > 0\<close>.
\<close>

definition progress_of :: "int \<Rightarrow> int \<Rightarrow> error + real" where
  "progress_of days_elapsed total_days =
     (if total_days > 0
      then (case py_div (real_of_int days_elapsed) (real_of_int total_days) of
              Inl e \<Rightarrow> Inl e
            | Inr q \<Rightarrow> Inr (q * 100))
      else Inr 0)"

definition effective_cpm :: "response \<Rightarrow> error + real" where
  "effective_cpm delivery_response =
     (case py_div (get (r_spend delivery_response) 0)
               (real_of_int (get (r_impressions delivery_response) 0)) of
        Inl e \<Rightarrow> Inl e
      | Inr q \<Rightarrow> Inr (q * 1000))"

fun monitor :: "server \<Rightarrow> sim \<Rightarrow> date list \<Rightarrow> daily_entry list \<Rightarrow> log
    \<Rightarrow> (error + daily_entry list) \<times> log" where
  "monitor srv s [] daily_data lg = (Inr daily_data, lg)"
| "monitor srv s (check_date # rest) daily_data lg =
     (let lg1 = show_day check_date lg;
          (delivery_response, lg2) =
             call_tool srv (GetMediaBuyDelivery (media_buy_id s) check_date) lg1;
          daily_data' = daily_data @
             [\<lparr>dd_date = check_date,
               dd_spend = get (r_spend delivery_response) 0,
               dd_impressions = get (r_impressions delivery_response) 0,
               dd_pacing = get (r_pacing delivery_response) ''unknown''\<rparr>];
          days_elapsed = get (r_days_elapsed delivery_response) 0;
          total_days = get (r_total_days delivery_response) 0
      in case progress_of days_elapsed total_days of
           Inl e \<Rightarrow> (Inl e, lg2)
         | Inr progress \<Rightarrow>
             (let lg3 = say (DayProgress days_elapsed total_days progress) lg2
              in if get (r_impressions delivery_response) 0 > 0
                 then (case effective_cpm delivery_response of
                         Inl e \<Rightarrow> (Inl e, lg3)
                       | Inr ecpm \<Rightarrow> monitor srv s rest daily_data' (say (EffectiveCPM ecpm) lg3))
                 else monitor srv s rest daily_data' lg3))"

text \<open>
  \<^verbatim>\<open>_show_performance_trend\<close>: one bar per entry, its length the entry's share of the largest
  impression count on a scale of 40, or 0 when that count is not positive.
\<close>

fun trend_bars :: "int \<Rightarrow> daily_entry list \<Rightarrow> log \<Rightarrow> (error + unit) \<times> log" where
  "trend_bars max_impressions [] lg = (Inr (), lg)"
| "trend_bars max_impressions (data # rest) lg =
     (if max_impressions > 0
      then (case py_div (real_of_int (dd_impressions data)) (real_of_int max_impressions) of
              Inl e \<Rightarrow> (Inl e, lg)
            | Inr q \<Rightarrow>
                trend_bars max_impressions rest
                  (say (TrendBar (dd_date data) (py_int (q * 40))) lg))
      else trend_bars max_impressions rest (say (TrendBar (dd_date data) 0) lg))"

definition show_performance_trend :: "daily_entry list \<Rightarrow> log \<Rightarrow> (error + unit) \<times> log" where
  "show_performance_trend daily_data lg =
     (let max_impressions =
            (case daily_data of
               [] \<Rightarrow> 1
             | d # ds \<Rightarrow> fold max (map dd_impressions ds) (dd_impressions d))
      in trend_bars max_impressions daily_data lg)"

definition phase_5_in_flight :: "server \<Rightarrow> sim \<Rightarrow> log \<Rightarrow> (error + unit) \<times> log" where
  "phase_5_in_flight srv s lg =
     (case monitor srv s (monitoring_days s) [] lg of
        (Inl e, lg') \<Rightarrow> (Inl e, lg')
      | (Inr daily_data, lg') \<Rightarrow> show_performance_trend daily_data lg')"

subsection \<open>Phase 6: mid-flight optimization\<close>

definition expanded_overlay :: targeting_overlay where
  "expanded_overlay =
     \<lparr>geography = [''USA-CA'', ''USA-NY'', ''USA-TX'', ''USA-FL''],
      content_categories_exclude = [''controversial'']\<rparr>"

definition phase_6_optimization :: "server \<Rightarrow> sim \<Rightarrow> log \<Rightarrow> log" where
  "phase_6_optimization srv s lg =
     (let optimization_date = plus_days (flight_start s) 7;
          lg1 = show_day optimization_date lg;
          (delivery_response, lg2) =
             call_tool srv (GetMediaBuyDelivery (media_buy_id s) optimization_date) lg1;
          performance_index' =
             (if r_pacing delivery_response = Some ''on_track'' then 1.2 else 0.85);
          performance_request =
             UpdatePerformanceIndex (media_buy_id s)
               [\<lparr>product_id = ''prod_video_guaranteed_sports'',
                 performance_index = performance_index',
                 confidence_score = 0.92\<rparr>];
          (perf_response, lg3) = call_tool srv performance_request lg2;
          lg4 = (if r_status perf_response = Some ''success''
                 then say (PerformanceIndexUpdated performance_index') lg3 else lg3);
          pacing = get (r_pacing delivery_response) ''unknown''
      in if pacing = ''under_delivery'' then
           (let lg5 = say UnderDelivering lg4;
                (update_response, lg6) =
                   call_tool srv (UpdateMediaBuy (media_buy_id s) expanded_overlay) lg5
            in if r_status update_response = Some ''success''
               then say OptimizationsApplied lg6
               else say OptimizationsFailed lg6)
         else if pacing = ''over_delivery'' then say OverDelivering lg4
         else say PacingOnTrack lg4)"

subsection \<open>Phase 7: completion\<close>

text \<open>
  The content of the summary panel. The conditional applies to the whole concatenated
  string, so the panel is empty unless the impressions are positive, and the quotient of
  the CPM line is evaluated only in that case.
\<close>

definition summary_panel :: "sim \<Rightarrow> response \<Rightarrow> error + panel" where
  "summary_panel s final_response =
     (if get (r_impressions final_response) 0 > 0
      then (case effective_cpm final_response of
              Inl e \<Rightarrow> Inl e
            | Inr ecpm \<Rightarrow>
                Inr (Summary (media_buy_id s) (get (r_status final_response) ''unknown'')
                       (get (r_spend final_response) 0) (get (r_impressions final_response) 0)
                       ecpm))
      else Inr EmptyPanel)"

definition delivery_pct_of :: "real \<Rightarrow> real \<Rightarrow> error + real" where
  "delivery_pct_of spend budget =
     (if budget > 0
      then (case py_div spend budget of Inl e \<Rightarrow> Inl e | Inr q \<Rightarrow> Inr (q * 100))
      else Inr 0)"

definition delivery_notice :: "real \<Rightarrow> notice" where
  "delivery_notice delivery_pct =
     (if delivery_pct \<ge> 95 then ExcellentDelivery
      else if delivery_pct \<ge> 80 then GoodDelivery
      else UnderDelivery)"

definition phase_7_completion :: "server \<Rightarrow> sim \<Rightarrow> log \<Rightarrow> (error + unit) \<times> log" where
  "phase_7_completion srv s lg =
     (let completion_date = plus_days (flight_end s) 1;
          lg1 = show_day completion_date lg;
          (final_response, lg2) =
             call_tool srv (GetMediaBuyDelivery (media_buy_id s) completion_date) lg1
      in case summary_panel s final_response of
           Inl e \<Rightarrow> (Inl e, lg2)
         | Inr content \<Rightarrow>
             (let lg3 = say (CampaignSummary content) lg2;
                  budget = 50000
              in case delivery_pct_of (get (r_spend final_response) 0) budget of
                   Inl e \<Rightarrow> (Inl e, lg3)
                 | Inr delivery_pct \<Rightarrow>
                     (let lg4 = say (BudgetUtilization delivery_pct) lg3;
                          lg5 = say (delivery_notice delivery_pct) lg4
                      in (Inr (), say LifecycleComplete lg5))))"

subsection \<open>The run\<close>

text \<open>
  The seven phases in order, starting from an empty log. An exception raised in a phase
  leaves \<open>run\<close>, so the later phases are not entered.
\<close>

definition run :: "server \<Rightarrow> sim \<Rightarrow> (error + sim) \<times> log" where
  "run srv s =
     (let (s1, lg1) = phase_1_planning srv s []
      in case phase_2_buying srv s1 lg1 of
           (Inl e, lg2) \<Rightarrow> (Inl e, lg2)
         | (Inr s2, lg2) \<Rightarrow>
             (let (s3, lg3) = phase_3_creatives srv s2 lg2;
                  lg4 = phase_4_pre_flight srv s3 lg3
              in case phase_5_in_flight srv s3 lg4 of
                   (Inl e, lg5) \<Rightarrow> (Inl e, lg5)
                 | (Inr u, lg5) \<Rightarrow>
                     (let lg6 = phase_6_optimization srv s3 lg5
                      in case phase_7_completion srv s3 lg6 of
                           (Inl e, lg7) \<Rightarrow> (Inl e, lg7)
                         | (Inr u', lg7) \<Rightarrow> (Inr s3, lg7))))"

definition main :: "server \<Rightarrow> (error + sim) \<times> log" where
  "main srv = run srv (init ''purina'')"

section \<open>Reading a log\<close>

fun days_shown :: "log \<Rightarrow> date list" where
  "days_shown [] = []"
| "days_shown (ShowDay d # es) = d # days_shown es"
| "days_shown (e # es) = days_shown es"

text \<open>The as-of dates of the delivery reads, in the order they were requested.\<close>

fun delivery_dates :: "request list \<Rightarrow> date list" where
  "delivery_dates [] = []"
| "delivery_dates (GetMediaBuyDelivery mb today # rs) = today # delivery_dates rs"
| "delivery_dates (r # rs) = delivery_dates rs"

text \<open>
  The \<open>days_elapsed\<close> of each delivery snapshot fetched, in order, read the way phase 5
  reads it (0 when the field is missing).
\<close>

fun days_elapsed_series :: "log \<Rightarrow> int list" where
  "days_elapsed_series [] = []"
| "days_elapsed_series (Call (GetMediaBuyDelivery mb today) resp # es) =
     get (r_days_elapsed resp) 0 # days_elapsed_series es"
| "days_elapsed_series (e # es) = days_elapsed_series es"

fun check_ids :: "request list \<Rightarrow> string option list list" where
  "check_ids [] = []"
| "check_ids (CheckCreativeStatus ids # rs) = ids # check_ids rs"
| "check_ids (r # rs) = check_ids rs"


text \<open>
  The effective CPM values printed by the monitoring loop, the delivery snapshots fetched,
  and the log without the error lines of failed calls.
\<close>

fun cpms_shown :: "log \<Rightarrow> real list" where
  "cpms_shown [] = []"
| "cpms_shown (Say (EffectiveCPM ecpm) # es) = ecpm # cpms_shown es"
| "cpms_shown (e # es) = cpms_shown es"

fun snapshots :: "log \<Rightarrow> response list" where
  "snapshots [] = []"
| "snapshots (Call (GetMediaBuyDelivery mb today) resp # es) = resp # snapshots es"
| "snapshots (e # es) = snapshots es"

fun quiet :: "log \<Rightarrow> log" where
  "quiet [] = []"
| "quiet (Say (ErrorCalling name) # es) = quiet es"
| "quiet (e # es) = e # quiet es"

section \<open>Example services\<close>

text \<open>
  A service for concrete runs. It accepts the buy as \<open>mb_1\<close>, reports every submitted
  creative as pending, reports every queried creative as approved from the \<open>k\<close>-th status
  check on and as pending before, and derives delivery from the as-of date: \<open>days_elapsed\<close>
  is the number of days since 1 August 2025, kept between 0 and the 15 days of the flight,
  with 3200 of spend a day and the given pacing.
\<close>

definition example_delivery :: "string \<Rightarrow> date \<Rightarrow> response" where
  "example_delivery pace today =
     (let elapsed = max 0 (min 15 (toordinal today - toordinal (Date 2025 8 1)))
      in empty_response
           \<lparr>r_status := Some (if toordinal today < toordinal (Date 2025 8 1) then ''scheduled''
                              else if elapsed < 15 then ''delivering'' else ''completed''),
            r_spend := Some (3200 * real_of_int elapsed),
            r_impressions := Some (100000 * elapsed),
            r_days_elapsed := Some elapsed,
            r_total_days := Some 15,
            r_pacing := Some pace,
            r_total_budget := Some 50000\<rparr>)"

definition structured :: "response \<Rightarrow> call_outcome" where
  "structured r = Result (Some r)"

definition example_server :: "nat \<Rightarrow> string \<Rightarrow> server" where
  "example_server k pace reqs =
     (case rev reqs of
        [] \<Rightarrow> Raises
      | ListProducts brief # earlier \<Rightarrow>
          structured (empty_response
            \<lparr>r_products := Some [\<lparr>prod_product_id = Some ''prod_video_guaranteed_sports'',
                                    prod_name = Some ''Sports Video - Guaranteed'',
                                    prod_delivery_type = Some ''guaranteed'',
                                    prod_cpm = Some 15,
                                    prod_is_fixed_price = Some True\<rparr>]\<rparr>)
      | CreateMediaBuy req # earlier \<Rightarrow>
          structured (empty_response\<lparr>r_media_buy_id := Some ''mb_1''\<rparr>)
      | SubmitCreatives mb cs # earlier \<Rightarrow>
          structured (empty_response
            \<lparr>r_statuses := Some (map (\<lambda>c. \<lparr>st_creative_id = Some (creative_id c),
                                               st_status = Some ''pending''\<rparr>) cs)\<rparr>)
      | CheckCreativeStatus ids # earlier \<Rightarrow>
          structured (empty_response
            \<lparr>r_statuses := Some (map (\<lambda>i. \<lparr>st_creative_id = i,
                  st_status = Some (if k \<le> length (check_ids reqs) then ''approved''
                                    else ''pending'')\<rparr>) ids)\<rparr>)
      | GetMediaBuyDelivery mb today # earlier \<Rightarrow> structured (example_delivery pace today)
      | UpdatePerformanceIndex mb ps # earlier \<Rightarrow>
          structured (empty_response\<lparr>r_status := Some ''success''\<rparr>)
      | UpdateMediaBuy mb overlay # earlier \<Rightarrow>
          structured (empty_response\<lparr>r_status := Some ''success''\<rparr>))"

text \<open>
  A service with the \<open>n\<close>-th call of the run raising, one with the \<open>n\<close>-th call returning a
  result without structured content, one with every call raising, and one whose every call
  returns a result without structured content.
\<close>

definition failing_call :: "nat \<Rightarrow> server \<Rightarrow> server" where
  "failing_call n srv reqs = (if length reqs = n then Raises else srv reqs)"


definition silent_server :: server where
  "silent_server reqs = Raises"

definition contentless_server :: server where
  "contentless_server reqs = Result None"

section \<open>Auxiliary facts\<close>

subsection \<open>Reading a log that grows\<close>

lemma requests_of_append [simp]: "requests_of (xs @ ys) = requests_of xs @ requests_of ys"
  by (induction xs rule: requests_of.induct) simp_all

lemma days_shown_append [simp]: "days_shown (xs @ ys) = days_shown xs @ days_shown ys"
  by (induction xs rule: days_shown.induct) simp_all

lemma days_elapsed_series_append [simp]:
  "days_elapsed_series (xs @ ys) = days_elapsed_series xs @ days_elapsed_series ys"
  by (induction xs rule: days_elapsed_series.induct) simp_all

lemma delivery_dates_append [simp]:
  "delivery_dates (xs @ ys) = delivery_dates xs @ delivery_dates ys"
  by (induction xs rule: delivery_dates.induct) simp_all

lemma check_ids_append [simp]: "check_ids (xs @ ys) = check_ids xs @ check_ids ys"
  by (induction xs rule: check_ids.induct) simp_all

lemma cpms_shown_append [simp]: "cpms_shown (xs @ ys) = cpms_shown xs @ cpms_shown ys"
  by (induction xs rule: cpms_shown.induct) simp_all

lemma quiet_append [simp]: "quiet (xs @ ys) = quiet xs @ quiet ys"
  by (induction xs rule: quiet.induct) simp_all

subsection \<open>The events of one call\<close>

lemma requests_of_call_events [simp]: "requests_of (call_events srv reqs req) = [req]"
  by (simp add: call_events_def split: call_outcome.splits)

lemma days_shown_call_events [simp]: "days_shown (call_events srv reqs req) = []"
  by (simp add: call_events_def split: call_outcome.splits)

lemma cpms_shown_call_events [simp]: "cpms_shown (call_events srv reqs req) = []"
  by (simp add: call_events_def split: call_outcome.splits)

lemma series_call_events_delivery [simp]:
  "days_elapsed_series (call_events srv reqs (GetMediaBuyDelivery mb today)) =
     [get (r_days_elapsed (tool_result srv (reqs @ [GetMediaBuyDelivery mb today]))) 0]"
  by (simp add: call_events_def split: call_outcome.splits)

lemma series_call_events_other [simp]:
  "days_elapsed_series (call_events srv reqs (ListProducts b)) = []"
  "days_elapsed_series (call_events srv reqs (CreateMediaBuy br)) = []"
  "days_elapsed_series (call_events srv reqs (SubmitCreatives mb cs)) = []"
  "days_elapsed_series (call_events srv reqs (CheckCreativeStatus ids)) = []"
  "days_elapsed_series (call_events srv reqs (UpdatePerformanceIndex mb ps)) = []"
  "days_elapsed_series (call_events srv reqs (UpdateMediaBuy mb ov)) = []"
  by (simp_all add: call_events_def split: call_outcome.splits)

lemma quiet_call_events [simp]:
  "quiet (call_events srv reqs req) = [Call req (tool_result srv (reqs @ [req]))]"
  by (simp add: call_events_def split: call_outcome.splits)

lemma last_call_events [simp]:
  "last (xs @ call_events srv reqs req) = Call req (tool_result srv (reqs @ [req]))"
  by (simp add: call_events_def)

lemma requests_of_show_day [simp]: "requests_of (show_day d lg) = requests_of lg"
  by (simp add: show_day_def)

lemma requests_of_say [simp]: "requests_of (say n lg) = requests_of lg"
  by (simp add: say_def)

lemma days_elapsed_series_show_day [simp]:
  "days_elapsed_series (show_day d lg) = days_elapsed_series lg"
  by (simp add: show_day_def)

lemma days_elapsed_series_say [simp]:
  "days_elapsed_series (say n lg) = days_elapsed_series lg"
  by (simp add: say_def)

subsection \<open>The approval loop, one check at a time\<close>

lemma status_val_approved:
  "get (st_status st) ''unknown'' = ''approved'' \<longleftrightarrow> st_status st = Some ''approved''"
  by (cases "st_status st") (simp_all add: get_def)

lemma check_statuses_iff:
  "check_statuses sts b \<longleftrightarrow> b \<and> (\<forall>st\<in>set sts. st_status st = Some ''approved'')"
  by (induction sts arbitrary: b) (auto simp: status_val_approved Let_def)

lemma approval_checks_Cons:
  "approval_checks srv s (d # ds) lg =
     (let resp = tool_result srv (requests_of lg @ [CheckCreativeStatus (creative_ids s)]);
          lg2 = lg @ ShowDay d #
                  call_events srv (requests_of lg) (CheckCreativeStatus (creative_ids s))
      in if (\<forall>st\<in>set (get (r_statuses resp) []). st_status st = Some ''approved'')
         then lg2 @ [Say AllCreativesApproved]
         else approval_checks srv s ds lg2)"
  by (simp add: call_tool_def show_day_def say_def Let_def check_statuses_iff)

declare approval_checks.simps(2) [simp del]

subsection \<open>Calendar steps on numerals\<close>

lemma plus_days_numeral [simp]:
  "plus_days d (numeral n) = next_day (plus_days d (pred_numeral n))"
  by (simp add: numeral_eq_Suc)

lemma minus_days_numeral [simp]:
  "minus_days d (numeral n) = prev_day (minus_days d (pred_numeral n))"
  by (simp add: numeral_eq_Suc)

lemma days_before_month_numeral [simp]:
  "days_before_month y (numeral n) =
     (if pred_numeral n = 0 then 0
      else days_before_month y (pred_numeral n) + days_in_month y (pred_numeral n))"
  by (simp add: numeral_eq_Suc)

subsection \<open>The guarded quotients\<close>

lemma progress_of_eq:
  "progress_of days_elapsed total_days =
     Inr (if total_days > 0 then real_of_int days_elapsed / real_of_int total_days * 100 else 0)"
  by (simp add: progress_of_def py_div_def)

lemma effective_cpm_eq:
  "0 < get (r_impressions r) 0 \<Longrightarrow>
   effective_cpm r = Inr (get (r_spend r) 0 / real_of_int (get (r_impressions r) 0) * 1000)"
  by (simp add: effective_cpm_def py_div_def)

lemma delivery_pct_of_eq:
  "delivery_pct_of spend budget = Inr (if budget > 0 then spend / budget * 100 else 0)"
  by (simp add: delivery_pct_of_def py_div_def)

lemma summary_panel_eq:
  "summary_panel s r =
     Inr (if 0 < get (r_impressions r) 0
          then Summary (media_buy_id s) (get (r_status r) ''unknown'') (get (r_spend r) 0)
                 (get (r_impressions r) 0)
                 (get (r_spend r) 0 / real_of_int (get (r_impressions r) 0) * 1000)
          else EmptyPanel)"
  by (simp add: summary_panel_def effective_cpm_eq)

subsection \<open>The requests of each phase\<close>

lemma call_tool_eq:
  "call_tool srv req lg =
     (tool_result srv (requests_of lg @ [req]), lg @ call_events srv (requests_of lg) req)"
  by (simp add: call_tool_def)

lemma make_buy_request_products [simp]:
  "make_buy_request (s\<lparr>products := ps\<rparr>) = make_buy_request s"
  by (simp add: make_buy_request_def)

lemma phase_1_planning_fst:
  "fst (phase_1_planning srv s lg) =
     s\<lparr>products := get (r_products (tool_result srv (requests_of lg @ [ListProducts planning_brief]))) []\<rparr>"
  by (simp add: phase_1_planning_def call_tool_eq Let_def)

lemma phase_1_planning_requests:
  "requests_of (snd (phase_1_planning srv s lg)) = requests_of lg @ [ListProducts planning_brief]"
  by (simp add: phase_1_planning_def call_tool_eq Let_def)

lemma phase_2_buying_requests:
  "requests_of (snd (phase_2_buying srv s lg)) = requests_of lg @ [CreateMediaBuy (make_buy_request s)]"
  by (simp add: phase_2_buying_def call_tool_eq Let_def)

lemma phase_2_buying_fst:
  "fst (phase_2_buying srv s lg) =
     (let mb = r_media_buy_id (tool_result srv (requests_of lg @ [CreateMediaBuy (make_buy_request s)]))
      in if truthy mb then Inr (s\<lparr>media_buy_id := mb\<rparr>) else Inl MediaBuyCreationFailed)"
  by (simp add: phase_2_buying_def call_tool_eq Let_def)


lemma phase_4_requests:
  "requests_of (phase_4_pre_flight srv s lg) =
     requests_of lg @ [GetMediaBuyDelivery (media_buy_id s) (minus_days (flight_start s) 2)]"
  by (simp add: phase_4_pre_flight_def call_tool_eq Let_def)

text \<open>One iteration of the monitoring loop: it never raises, and these are its events.\<close>

lemma monitor_Cons:
  "monitor srv s (d # ds) dd lg =
     (let r = tool_result srv (requests_of lg @ [GetMediaBuyDelivery (media_buy_id s) d])
      in monitor srv s ds
           (dd @ [\<lparr>dd_date = d, dd_spend = get (r_spend r) 0,
                   dd_impressions = get (r_impressions r) 0,
                   dd_pacing = get (r_pacing r) ''unknown''\<rparr>])
           (lg @ ShowDay d #
              call_events srv (requests_of lg) (GetMediaBuyDelivery (media_buy_id s) d) @
              Say (DayProgress (get (r_days_elapsed r) 0) (get (r_total_days r) 0)
                     (if get (r_total_days r) 0 > 0
                      then real_of_int (get (r_days_elapsed r) 0) /
                           real_of_int (get (r_total_days r) 0) * 100
                      else 0)) #
              (if 0 < get (r_impressions r) 0
               then [Say (EffectiveCPM (get (r_spend r) 0 /
                       real_of_int (get (r_impressions r) 0) * 1000))]
               else [])))"
  by (simp add: call_tool_eq Let_def show_day_def say_def progress_of_eq effective_cpm_eq)

declare monitor.simps(2) [simp del]

lemma monitor_ok: "\<exists>daily_data. fst (monitor srv s ds dd lg) = Inr daily_data"
  by (induction ds arbitrary: dd lg) (simp_all add: monitor_Cons Let_def)

lemma monitor_requests:
  "requests_of (snd (monitor srv s ds dd lg)) =
     requests_of lg @ map (GetMediaBuyDelivery (media_buy_id s)) ds"
  by (induction ds arbitrary: dd lg) (simp_all add: monitor_Cons Let_def)

lemma monitor_extends: "\<exists>ev. snd (monitor srv s ds dd lg) = lg @ ev"
proof (induction ds arbitrary: dd lg)
  case Nil
  show ?case by simp
next
  case (Cons d ds)
  have "\<exists>dd' mid. monitor srv s (d # ds) dd lg = monitor srv s ds dd' (lg @ mid)"
    unfolding monitor_Cons Let_def by blast
  then obtain dd' mid where step: "monitor srv s (d # ds) dd lg = monitor srv s ds dd' (lg @ mid)"
    by blast
  from Cons.IH [of dd' "lg @ mid"] obtain ev where
    "snd (monitor srv s ds dd' (lg @ mid)) = (lg @ mid) @ ev"
    by blast
  then show ?case
    by (intro exI[of _ "mid @ ev"]) (simp add: step)
qed

lemma trend_bars_ok: "fst (trend_bars m dd lg) = Inr ()"
  by (induction dd arbitrary: lg) (simp_all add: py_div_def)

lemma trend_bars_requests [simp]: "requests_of (snd (trend_bars m dd lg)) = requests_of lg"
  by (induction dd arbitrary: lg) (simp_all add: py_div_def)

lemma trend_bars_series [simp]:
  "days_elapsed_series (snd (trend_bars m dd lg)) = days_elapsed_series lg"
  by (induction dd arbitrary: lg) (simp_all add: py_div_def)

lemma trend_bars_cpms [simp]: "cpms_shown (snd (trend_bars m dd lg)) = cpms_shown lg"
  by (induction dd arbitrary: lg) (simp_all add: py_div_def say_def)

lemma trend_bars_extends: "\<exists>ev. snd (trend_bars m dd lg) = lg @ ev"
proof (induction dd arbitrary: lg)
  case Nil
  show ?case by simp
next
  case (Cons d dd)
  have "\<exists>n. trend_bars m (d # dd) lg = trend_bars m dd (lg @ [Say n])"
    by (cases "0 < m") (auto simp: py_div_def say_def)
  then obtain n where step: "trend_bars m (d # dd) lg = trend_bars m dd (lg @ [Say n])"
    by blast
  from Cons.IH [of "lg @ [Say n]"] obtain ev where
    "snd (trend_bars m dd (lg @ [Say n])) = (lg @ [Say n]) @ ev"
    by blast
  then show ?case
    by (intro exI[of _ "Say n # ev"]) (simp only: step, simp)
qed

lemma show_performance_trend_ok: "fst (show_performance_trend dd lg) = Inr ()"
  by (simp add: show_performance_trend_def trend_bars_ok)

lemma show_performance_trend_requests [simp]:
  "requests_of (snd (show_performance_trend dd lg)) = requests_of lg"
  by (simp add: show_performance_trend_def)

lemma show_performance_trend_series [simp]:
  "days_elapsed_series (snd (show_performance_trend dd lg)) = days_elapsed_series lg"
  by (simp add: show_performance_trend_def)

lemma show_performance_trend_cpms [simp]:
  "cpms_shown (snd (show_performance_trend dd lg)) = cpms_shown lg"
  by (simp add: show_performance_trend_def)

lemma show_performance_trend_extends: "\<exists>ev. snd (show_performance_trend dd lg) = lg @ ev"
  by (simp add: show_performance_trend_def trend_bars_extends)

text \<open>Phase 5 never raises; its log is that of the loop followed by the trend bars.\<close>

lemma phase_5_in_flight_eq:
  "\<exists>daily_data.
     phase_5_in_flight srv s lg =
       show_performance_trend daily_data (snd (monitor srv s (monitoring_days s) [] lg))"
proof -
  from monitor_ok obtain daily_data where
    "fst (monitor srv s (monitoring_days s) [] lg) = Inr daily_data"
    by blast
  then have "phase_5_in_flight srv s lg =
       show_performance_trend daily_data (snd (monitor srv s (monitoring_days s) [] lg))"
    by (cases "monitor srv s (monitoring_days s) [] lg") (simp add: phase_5_in_flight_def)
  then show ?thesis by blast
qed

lemma phase_5_ok: "fst (phase_5_in_flight srv s lg) = Inr ()"
  using phase_5_in_flight_eq [of srv s lg] by (auto simp: show_performance_trend_ok)

lemma phase_5_requests:
  "requests_of (snd (phase_5_in_flight srv s lg)) =
     requests_of lg @ map (GetMediaBuyDelivery (media_buy_id s)) (monitoring_days s)"
  using phase_5_in_flight_eq [of srv s lg] by (auto simp: monitor_requests)

lemma phase_6_requests:
  "requests_of (phase_6_optimization srv s lg) =
     (let today = plus_days (flight_start s) 7;
          snapshot = tool_result srv (requests_of lg @ [GetMediaBuyDelivery (media_buy_id s) today])
      in requests_of lg @
         [GetMediaBuyDelivery (media_buy_id s) today,
          UpdatePerformanceIndex (media_buy_id s)
            [\<lparr>product_id = ''prod_video_guaranteed_sports'',
              performance_index = (if r_pacing snapshot = Some ''on_track'' then 1.2 else 0.85),
              confidence_score = 0.92\<rparr>]] @
         (if r_pacing snapshot = Some ''under_delivery''
          then [UpdateMediaBuy (media_buy_id s) expanded_overlay] else []))"
  by (cases "r_pacing (tool_result srv (requests_of lg @
        [GetMediaBuyDelivery (media_buy_id s) (plus_days (flight_start s) 7)]))")
     (simp_all add: phase_6_optimization_def call_tool_eq Let_def get_def)

text \<open>Phase 7 never raises, and these are its events.\<close>

lemma phase_7_completion_eq:
  "phase_7_completion srv s lg =
     (let today = plus_days (flight_end s) 1;
          final = tool_result srv (requests_of lg @ [GetMediaBuyDelivery (media_buy_id s) today]);
          pct = get (r_spend final) 0 / 50000 * 100
      in (Inr (),
          lg @ ShowDay today #
            call_events srv (requests_of lg) (GetMediaBuyDelivery (media_buy_id s) today) @
            [Say (CampaignSummary
                   (if 0 < get (r_impressions final) 0
                    then Summary (media_buy_id s) (get (r_status final) ''unknown'')
                           (get (r_spend final) 0) (get (r_impressions final) 0)
                           (get (r_spend final) 0 / real_of_int (get (r_impressions final) 0)
                              * 1000)
                    else EmptyPanel)),
             Say (BudgetUtilization pct), Say (delivery_notice pct), Say LifecycleComplete]))"
  by (simp add: phase_7_completion_def call_tool_eq Let_def show_day_def say_def
      summary_panel_eq delivery_pct_of_eq del: plus_days_numeral)

lemma phase_7_ok: "fst (phase_7_completion srv s lg) = Inr ()"
  by (simp add: phase_7_completion_eq Let_def)

lemma phase_7_requests:
  "requests_of (snd (phase_7_completion srv s lg)) =
     requests_of lg @ [GetMediaBuyDelivery (media_buy_id s) (plus_days (flight_end s) 1)]"
  by (simp add: phase_7_completion_eq Let_def del: plus_days_numeral)


subsection \<open>The run up to the buy\<close>

text \<open>
  The run in terms of its phases, with the pairs taken apart and the branches of phases 5
  and 7 that would raise left out, since they are never taken.
\<close>

lemma run_eq:
  "run srv s =
     (let p1 = phase_1_planning srv s [];
          p2 = phase_2_buying srv (fst p1) (snd p1)
      in case fst p2 of
           Inl e \<Rightarrow> (Inl e, snd p2)
         | Inr s2 \<Rightarrow>
             (let p3 = phase_3_creatives srv s2 (snd p2)
              in (Inr (fst p3),
                  snd (phase_7_completion srv (fst p3)
                    (phase_6_optimization srv (fst p3)
                      (snd (phase_5_in_flight srv (fst p3)
                        (phase_4_pre_flight srv (fst p3) (snd p3)))))))))"
proof -
  have five: "phase_5_in_flight srv s' lg = (Inr (), snd (phase_5_in_flight srv s' lg))" for s' lg
    using phase_5_ok [of srv s' lg] by (cases "phase_5_in_flight srv s' lg") simp
  have seven: "phase_7_completion srv s' lg = (Inr (), snd (phase_7_completion srv s' lg))" for s' lg
    using phase_7_ok [of srv s' lg] by (cases "phase_7_completion srv s' lg") simp
  show ?thesis
    unfolding run_def Let_def case_prod_beta
    by (subst five, subst seven) (simp split: sum.splits)
qed

lemma buying_requests:
  "requests_of (snd (phase_2_buying srv (fst (phase_1_planning srv s [])) (snd (phase_1_planning srv s [])))) =
     [ListProducts planning_brief, CreateMediaBuy (make_buy_request s)]"
  by (simp add: phase_2_buying_requests phase_1_planning_requests phase_1_planning_fst)

lemma buying_state:
  "fst (phase_2_buying srv (fst (phase_1_planning srv s [])) (snd (phase_1_planning srv s []))) =
     (let mb = r_media_buy_id (tool_result srv
                 [ListProducts planning_brief, CreateMediaBuy (make_buy_request s)])
      in if truthy mb
         then Inr (s\<lparr>products := get (r_products (tool_result srv [ListProducts planning_brief])) [],
                     media_buy_id := mb\<rparr>)
         else Inl MediaBuyCreationFailed)"
  by (simp add: phase_2_buying_fst phase_1_planning_requests phase_1_planning_fst Let_def)


lemma buying_series:
  "days_elapsed_series (snd (phase_2_buying srv (fst (phase_1_planning srv s [])) (snd (phase_1_planning srv s [])))) = []"
  by (simp add: phase_2_buying_def phase_1_planning_def call_tool_eq Let_def)

subsection \<open>The example services on single calls\<close>


lemma example_server_delivery [simp]:
  "tool_result (example_server k p) (reqs @ [GetMediaBuyDelivery mb d]) = example_delivery p d"
  by (simp add: tool_result_def example_server_def structured_def)

lemma example_server_delivery1 [simp]:
  "tool_result (example_server k p) [GetMediaBuyDelivery mb d] = example_delivery p d"
  by (simp add: tool_result_def example_server_def structured_def)

lemma example_delivery_pacing [simp]: "r_pacing (example_delivery p d) = Some p"
  by (simp add: example_delivery_def Let_def)

lemma tool_result_silent [simp]: "tool_result silent_server reqs = empty_response"
  by (simp add: tool_result_def silent_server_def)

lemma tool_result_contentless [simp]: "tool_result contentless_server reqs = empty_response"
  by (simp add: tool_result_def contentless_server_def)

subsection \<open>Phase 3 on a log\<close>

lemma record_statuses_eq:
  "record_statuses sts s = s\<lparr>creative_ids := creative_ids s @ map st_creative_id sts\<rparr>"
  by (induction sts arbitrary: s) simp_all

lemma phase_3_creatives_eq:
  "phase_3_creatives srv s lg =
     (let r = tool_result srv (requests_of lg @ [SubmitCreatives (media_buy_id s) submitted_creatives]);
          s' = s\<lparr>creative_ids := creative_ids s @ map st_creative_id (get (r_statuses r) [])\<rparr>
      in (s', approval_checks srv s' (approval_days s)
                (lg @ ShowDay (creative_date s) #
                   call_events srv (requests_of lg)
                     (SubmitCreatives (media_buy_id s) submitted_creatives))))"
  by (simp add: phase_3_creatives_def call_tool_eq Let_def show_day_def record_statuses_eq
      approval_days_def del: plus_days_numeral)

lemma approval_checks_requests:
  "\<exists>n\<le>length ds. (ds \<noteq> [] \<longrightarrow> 0 < n) \<and>
     requests_of (approval_checks srv s ds lg) =
       requests_of lg @ replicate n (CheckCreativeStatus (creative_ids s))"
proof (induction ds arbitrary: lg)
  case Nil
  show ?case by simp
next
  case (Cons d ds)
  let ?req = "CheckCreativeStatus (creative_ids s)"
  let ?resp = "tool_result srv (requests_of lg @ [?req])"
  let ?lg2 = "lg @ ShowDay d # call_events srv (requests_of lg) ?req"
  show ?case
  proof (cases "\<forall>st\<in>set (get (r_statuses ?resp) []). st_status st = Some ''approved''")
    case True
    then have "approval_checks srv s (d # ds) lg = ?lg2 @ [Say AllCreativesApproved]"
      by (subst approval_checks_Cons) (simp add: Let_def)
    then show ?thesis
      by (intro exI[of _ 1]) simp
  next
    case False
    then have step: "approval_checks srv s (d # ds) lg = approval_checks srv s ds ?lg2"
      by (subst approval_checks_Cons) (auto simp: Let_def)
    from Cons.IH [of ?lg2] obtain n where "n \<le> length ds"
      "requests_of (approval_checks srv s ds ?lg2) = requests_of ?lg2 @ replicate n ?req"
      by blast
    then show ?thesis
      by (intro exI[of _ "Suc n"]) (simp add: step replicate_app_Cons_same)
  qed
qed

lemma approval_checks_series [simp]:
  "days_elapsed_series (approval_checks srv s ds lg) = days_elapsed_series lg"
proof (induction ds arbitrary: lg)
  case Nil
  show ?case by simp
next
  case (Cons d ds)
  show ?case
    by (subst approval_checks_Cons) (simp add: Let_def Cons.IH)
qed

lemma approval_checks_cpms [simp]:
  "cpms_shown (approval_checks srv s ds lg) = cpms_shown lg"
proof (induction ds arbitrary: lg)
  case Nil
  show ?case by simp
next
  case (Cons d ds)
  show ?case
    by (subst approval_checks_Cons) (simp add: Let_def Cons.IH)
qed

lemma approval_checks_first_approved:
  assumes "\<forall>st\<in>set (get (r_statuses (tool_result srv
              (requests_of lg @ [CheckCreativeStatus (creative_ids s)]))) []).
             st_status st = Some ''approved''"
  shows "approval_checks srv s (d # ds) lg =
           lg @ ShowDay d #
             call_events srv (requests_of lg) (CheckCreativeStatus (creative_ids s)) @
             [Say AllCreativesApproved]"
  using assms by (subst approval_checks_Cons) (simp add: Let_def)

lemma delivery_dates_replicate_check [simp]:
  "delivery_dates (replicate n (CheckCreativeStatus ids)) = []"
  by (induction n) simp_all

lemma check_ids_replicate [simp]:
  "check_ids (replicate n (CheckCreativeStatus ids)) = replicate n ids"
  by (induction n) simp_all

lemma check_ids_map_delivery [simp]: "check_ids (map (GetMediaBuyDelivery mb) ds) = []"
  by (induction ds) simp_all

lemma delivery_dates_map_delivery [simp]:
  "delivery_dates (map (GetMediaBuyDelivery mb) ds) = ds"
  by (induction ds) simp_all

subsection \<open>Phases 4 to 7 on a log\<close>

text \<open>What they add to the requests of a log.\<close>

lemma later_phases_requests:
  "\<exists>feedback action.
     check_ids (feedback @ action) = [] \<and> delivery_dates (feedback @ action) = [] \<and>
     requests_of (snd (phase_7_completion srv s (phase_6_optimization srv s
        (snd (phase_5_in_flight srv s (phase_4_pre_flight srv s lg)))))) =
       requests_of lg @
       [GetMediaBuyDelivery (media_buy_id s) (minus_days (flight_start s) 2)] @
       map (GetMediaBuyDelivery (media_buy_id s)) (monitoring_days s) @
       [GetMediaBuyDelivery (media_buy_id s) (plus_days (flight_start s) 7)] @
       feedback @ action @
       [GetMediaBuyDelivery (media_buy_id s) (plus_days (flight_end s) 1)]"
proof -
  let ?lg5 = "snd (phase_5_in_flight srv s (phase_4_pre_flight srv s lg))"
  let ?snap = "tool_result srv (requests_of ?lg5 @
      [GetMediaBuyDelivery (media_buy_id s) (plus_days (flight_start s) 7)])"
  let ?feedback = "[UpdatePerformanceIndex (media_buy_id s)
            [\<lparr>product_id = ''prod_video_guaranteed_sports'',
              performance_index = (if r_pacing ?snap = Some ''on_track'' then 1.2 else 0.85),
              confidence_score = 0.92\<rparr>]]"
  let ?action = "if r_pacing ?snap = Some ''under_delivery''
          then [UpdateMediaBuy (media_buy_id s) expanded_overlay] else []"
  show ?thesis
    by (intro exI[of _ ?feedback] exI[of _ ?action])
       (simp add: phase_7_requests phase_6_requests phase_5_requests phase_4_requests Let_def
          del: plus_days_numeral minus_days_numeral)
qed

lemma later_phases_check_ids:
  "check_ids (requests_of (snd (phase_7_completion srv s (phase_6_optimization srv s
        (snd (phase_5_in_flight srv s (phase_4_pre_flight srv s lg))))))) =
     check_ids (requests_of lg)"
proof -
  from later_phases_requests [of srv s lg] obtain feedback action where
    "check_ids (feedback @ action) = []"
    "requests_of (snd (phase_7_completion srv s (phase_6_optimization srv s
        (snd (phase_5_in_flight srv s (phase_4_pre_flight srv s lg)))))) =
       requests_of lg @
       [GetMediaBuyDelivery (media_buy_id s) (minus_days (flight_start s) 2)] @
       map (GetMediaBuyDelivery (media_buy_id s)) (monitoring_days s) @
       [GetMediaBuyDelivery (media_buy_id s) (plus_days (flight_start s) 7)] @
       feedback @ action @
       [GetMediaBuyDelivery (media_buy_id s) (plus_days (flight_end s) 1)]"
    by blast
  then show ?thesis
    by (simp del: plus_days_numeral minus_days_numeral)
qed

text \<open>They only add to the log.\<close>

lemma later_phases_extend:
  "\<exists>ev. snd (phase_7_completion srv s (phase_6_optimization srv s
        (snd (phase_5_in_flight srv s (phase_4_pre_flight srv s lg))))) = lg @ ev"
proof -
  have p4: "\<exists>ev. phase_4_pre_flight srv s lg = lg @ ev" for lg
    by (simp add: phase_4_pre_flight_def call_tool_eq Let_def show_day_def say_def
        del: minus_days_numeral)
  have p5: "\<exists>ev. snd (phase_5_in_flight srv s lg) = lg @ ev" for lg
  proof -
    from phase_5_in_flight_eq [of srv s lg] obtain dd where
      a: "phase_5_in_flight srv s lg =
       show_performance_trend dd (snd (monitor srv s (monitoring_days s) [] lg))"
      by blast
    from monitor_extends [of srv s "monitoring_days s" "[]" lg] obtain e1 where
      b: "snd (monitor srv s (monitoring_days s) [] lg) = lg @ e1"
      by blast
    from show_performance_trend_extends [of dd "lg @ e1"] obtain e2 where
      "snd (show_performance_trend dd (lg @ e1)) = (lg @ e1) @ e2"
      by blast
    then show ?thesis
      by (intro exI[of _ "e1 @ e2"]) (simp add: a b)
  qed
  have p6: "\<exists>ev. phase_6_optimization srv s lg = lg @ ev" for lg
    by (simp add: phase_6_optimization_def call_tool_eq Let_def show_day_def say_def
        del: plus_days_numeral)
  have p7: "\<exists>ev. snd (phase_7_completion srv s lg) = lg @ ev" for lg
    by (simp add: phase_7_completion_eq Let_def del: plus_days_numeral)
  from p4 [of lg] obtain e4 where e4: "phase_4_pre_flight srv s lg = lg @ e4" by blast
  from p5 [of "lg @ e4"] obtain e5 where
    e5: "snd (phase_5_in_flight srv s (lg @ e4)) = (lg @ e4) @ e5"
    by blast
  from p6 [of "(lg @ e4) @ e5"] obtain e6 where
    e6: "phase_6_optimization srv s ((lg @ e4) @ e5) = ((lg @ e4) @ e5) @ e6"
    by blast
  from p7 [of "((lg @ e4) @ e5) @ e6"] obtain e7 where
    e7: "snd (phase_7_completion srv s (((lg @ e4) @ e5) @ e6)) = (((lg @ e4) @ e5) @ e6) @ e7"
    by blast
  have "snd (phase_7_completion srv s (phase_6_optimization srv s
        (snd (phase_5_in_flight srv s (phase_4_pre_flight srv s lg))))) =
      (((lg @ e4) @ e5) @ e6) @ e7"
    by (simp only: e4 e5 e6 e7)
  then show ?thesis
    by (intro exI[of _ "e4 @ e5 @ e6 @ e7"]) simp
qed

subsection \<open>Runs that complete and runs that abort\<close>

text \<open>
  A run whose buy succeeded: its final state, and its requests in order. \<open>mb\<close> and \<open>s3\<close>
  abbreviate the id bought and the state after phase 3.
\<close>

lemma run_completed:
  assumes mb: "mb = r_media_buy_id (tool_result srv
                 [ListProducts planning_brief, CreateMediaBuy (make_buy_request s)])"
    and ok: "truthy mb"
    and s3: "s3 = s\<lparr>products := get (r_products (tool_result srv [ListProducts planning_brief])) [],
                    media_buy_id := mb,
                    creative_ids := creative_ids s @ map st_creative_id
                      (get (r_statuses (tool_result srv
                        [ListProducts planning_brief, CreateMediaBuy (make_buy_request s),
                         SubmitCreatives mb submitted_creatives])) [])\<rparr>"
  shows "fst (run srv s) = Inr s3"
    and "\<exists>n feedback action. 0 < n \<and> n \<le> 3 \<and>
           check_ids (feedback @ action) = [] \<and> delivery_dates (feedback @ action) = [] \<and>
           requests_of (snd (run srv s)) =
             [ListProducts planning_brief, CreateMediaBuy (make_buy_request s),
              SubmitCreatives mb submitted_creatives] @
             replicate n (CheckCreativeStatus (creative_ids s3)) @
             [GetMediaBuyDelivery mb (minus_days (flight_start s) 2)] @
             map (GetMediaBuyDelivery mb) (monitoring_days s) @
             [GetMediaBuyDelivery mb (plus_days (flight_start s) 7)] @
             feedback @ action @
             [GetMediaBuyDelivery mb (plus_days (flight_end s) 1)]"
proof -
  let ?p1 = "phase_1_planning srv s []"
  let ?p2 = "phase_2_buying srv (fst ?p1) (snd ?p1)"
  let ?s2 = "s\<lparr>products := get (r_products (tool_result srv [ListProducts planning_brief])) [],
               media_buy_id := mb\<rparr>"
  let ?submit = "SubmitCreatives mb submitted_creatives"
  let ?lg3 = "snd ?p2 @ ShowDay (creative_date s) #
        call_events srv [ListProducts planning_brief, CreateMediaBuy (make_buy_request s)] ?submit"
  have st: "fst ?p2 = Inr ?s2"
    using ok by (simp add: buying_state Let_def mb)
  have p3: "phase_3_creatives srv ?s2 (snd ?p2) =
      (s3, approval_checks srv s3 (approval_days ?s2) ?lg3)"
    by (simp add: phase_3_creatives_eq buying_requests Let_def s3)
  have run: "run srv s =
      (Inr s3, snd (phase_7_completion srv s3 (phase_6_optimization srv s3
        (snd (phase_5_in_flight srv s3 (phase_4_pre_flight srv s3
          (approval_checks srv s3 (approval_days ?s2) ?lg3)))))))"
    by (simp add: run_eq Let_def st p3)
  show "fst (run srv s) = Inr s3"
    by (simp add: run)
  have fields: "media_buy_id s3 = mb" "flight_start s3 = flight_start s"
    "flight_end s3 = flight_end s" "monitoring_days s3 = monitoring_days s"
    by (simp_all add: s3 monitoring_days_def del: plus_days_numeral)
  have len: "length (approval_days ?s2) = 3" "approval_days ?s2 \<noteq> []"
    by (simp_all add: approval_days_def del: plus_days_numeral)
  from approval_checks_requests [of "approval_days ?s2" srv s3 ?lg3] len
  obtain n where n: "0 < n" "n \<le> 3"
    "requests_of (approval_checks srv s3 (approval_days ?s2) ?lg3) =
       requests_of ?lg3 @ replicate n (CheckCreativeStatus (creative_ids s3))"
    by auto
  from later_phases_requests [of srv s3 "approval_checks srv s3 (approval_days ?s2) ?lg3"]
  obtain feedback action where fa: "check_ids (feedback @ action) = []"
    "delivery_dates (feedback @ action) = []"
    "requests_of (snd (phase_7_completion srv s3 (phase_6_optimization srv s3
        (snd (phase_5_in_flight srv s3 (phase_4_pre_flight srv s3
          (approval_checks srv s3 (approval_days ?s2) ?lg3))))))) =
       requests_of (approval_checks srv s3 (approval_days ?s2) ?lg3) @
       [GetMediaBuyDelivery (media_buy_id s3) (minus_days (flight_start s3) 2)] @
       map (GetMediaBuyDelivery (media_buy_id s3)) (monitoring_days s3) @
       [GetMediaBuyDelivery (media_buy_id s3) (plus_days (flight_start s3) 7)] @
       feedback @ action @
       [GetMediaBuyDelivery (media_buy_id s3) (plus_days (flight_end s3) 1)]"
    by blast
  show "\<exists>n feedback action. 0 < n \<and> n \<le> 3 \<and>
           check_ids (feedback @ action) = [] \<and> delivery_dates (feedback @ action) = [] \<and>
           requests_of (snd (run srv s)) =
             [ListProducts planning_brief, CreateMediaBuy (make_buy_request s),
              SubmitCreatives mb submitted_creatives] @
             replicate n (CheckCreativeStatus (creative_ids s3)) @
             [GetMediaBuyDelivery mb (minus_days (flight_start s) 2)] @
             map (GetMediaBuyDelivery mb) (monitoring_days s) @
             [GetMediaBuyDelivery mb (plus_days (flight_start s) 7)] @
             feedback @ action @
             [GetMediaBuyDelivery mb (plus_days (flight_end s) 1)]"
    using n(1,2) fa(1,2)
    by (intro exI[of _ n] exI[of _ feedback] exI[of _ action])
       (simp add: run fa(3) n(3) fields buying_requests
          del: plus_days_numeral minus_days_numeral)
qed

lemma init_fields [simp]:
  "principal_id (init pid) = pid" "media_buy_id (init pid) = None"
  "creative_ids (init pid) = []" "products (init pid) = []"
  "planning_date (init pid) = Date 2025 6 5" "buy_date (init pid) = Date 2025 6 15"
  "creative_date (init pid) = Date 2025 6 20" "flight_start (init pid) = Date 2025 8 1"
  "flight_end (init pid) = Date 2025 8 15"
  by (simp_all add: init_def)

lemma run_aborted:
  assumes "\<not> truthy (r_media_buy_id (tool_result srv
             [ListProducts planning_brief, CreateMediaBuy (make_buy_request s)]))"
  shows "fst (run srv s) = Inl MediaBuyCreationFailed"
  using assms by (simp add: run_eq Let_def buying_state)

lemma example_server_products:
  "tool_result (failing_call n (example_server k p)) [ListProducts b] =
     (if n = 1 then empty_response else empty_response
       \<lparr>r_products := Some [\<lparr>prod_product_id = Some ''prod_video_guaranteed_sports'',
                                    prod_name = Some ''Sports Video - Guaranteed'',
                                    prod_delivery_type = Some ''guaranteed'',
                                    prod_cpm = Some 15,
                                    prod_is_fixed_price = Some True\<rparr>]\<rparr>)"
  by (simp add: tool_result_def failing_call_def example_server_def structured_def)

lemma example_server_buy:
  "tool_result (failing_call n (example_server k p)) [a, CreateMediaBuy b] =
     (if n = 2 then empty_response else empty_response\<lparr>r_media_buy_id := Some ''mb_1''\<rparr>)"
  by (simp add: tool_result_def failing_call_def example_server_def structured_def)

lemma example_server_submit:
  "tool_result (failing_call n (example_server k p)) [a, b, SubmitCreatives mb cs] =
     (if n = 3 then empty_response else empty_response
       \<lparr>r_statuses := Some (map (\<lambda>c. \<lparr>st_creative_id = Some (creative_id c),
                                               st_status = Some ''pending''\<rparr>) cs)\<rparr>)"
  by (simp add: tool_result_def failing_call_def example_server_def structured_def)

lemma example_run_state:
  "fst (run (failing_call n (example_server k p)) (init pid)) =
     (if n = 2 then Inl MediaBuyCreationFailed
      else Inr (init pid
        \<lparr>products := get (r_products (tool_result (failing_call n (example_server k p))
             [ListProducts planning_brief])) [],
         media_buy_id := Some ''mb_1'',
         creative_ids :=
           (if n = 3 then []
            else [Some ''cr_purina_dog_30s_v1'', Some ''cr_purina_cat_30s_v1''])\<rparr>))"
proof (cases "n = 2")
  case True
  then show ?thesis
    by (simp add: run_aborted example_server_buy empty_response_def truthy_def)
next
  case False
  have mb: "Some ''mb_1'' = r_media_buy_id (tool_result (failing_call n (example_server k p))
      [ListProducts planning_brief, CreateMediaBuy (make_buy_request (init pid))])"
    using False by (simp add: example_server_buy)
  have ok: "truthy (Some ''mb_1'')"
    by (simp add: truthy_def)
  show ?thesis
    using False
    by (simp add: run_completed(1) [OF mb ok refl] example_server_submit empty_response_def
        get_def submitted_creatives_def)
qed

text \<open>The log of a run whose buy succeeded, from the log \<open>lg2\<close> of the first two phases on.\<close>

lemma run_log:
  assumes mb: "mb = r_media_buy_id (tool_result srv
                 [ListProducts planning_brief, CreateMediaBuy (make_buy_request s)])"
    and ok: "truthy mb"
    and s3: "s3 = s\<lparr>products := get (r_products (tool_result srv [ListProducts planning_brief])) [],
                    media_buy_id := mb,
                    creative_ids := creative_ids s @ map st_creative_id
                      (get (r_statuses (tool_result srv
                        [ListProducts planning_brief, CreateMediaBuy (make_buy_request s),
                         SubmitCreatives mb submitted_creatives])) [])\<rparr>"
  shows "\<exists>lg2. requests_of lg2 =
              [ListProducts planning_brief, CreateMediaBuy (make_buy_request s)]
         \<and> days_elapsed_series lg2 = []
         \<and> snd (run srv s) =
             snd (phase_7_completion srv s3 (phase_6_optimization srv s3
               (snd (phase_5_in_flight srv s3 (phase_4_pre_flight srv s3
                 (approval_checks srv s3
                    [plus_days (creative_date s) 1, plus_days (creative_date s) 2,
                     plus_days (creative_date s) 3]
                    (lg2 @ ShowDay (creative_date s) #
                       call_events srv (requests_of lg2)
                         (SubmitCreatives mb submitted_creatives))))))))"
proof -
  let ?p1 = "phase_1_planning srv s []"
  let ?p2 = "phase_2_buying srv (fst ?p1) (snd ?p1)"
  let ?s2 = "s\<lparr>products := get (r_products (tool_result srv [ListProducts planning_brief])) [],
               media_buy_id := mb\<rparr>"
  have st: "fst ?p2 = Inr ?s2"
    using ok by (simp add: buying_state Let_def mb)
  have p3: "phase_3_creatives srv ?s2 (snd ?p2) =
      (s3, approval_checks srv s3 (approval_days ?s2)
        (snd ?p2 @ ShowDay (creative_date s) #
           call_events srv (requests_of (snd ?p2)) (SubmitCreatives mb submitted_creatives)))"
    by (simp add: phase_3_creatives_eq buying_requests Let_def s3)
  have "snd (run srv s) =
      snd (phase_7_completion srv s3 (phase_6_optimization srv s3
        (snd (phase_5_in_flight srv s3 (phase_4_pre_flight srv s3
          (approval_checks srv s3 (approval_days ?s2)
            (snd ?p2 @ ShowDay (creative_date s) #
               call_events srv (requests_of (snd ?p2))
                 (SubmitCreatives mb submitted_creatives))))))))"
    by (simp add: run_eq Let_def st p3)
  then show ?thesis
    by (intro exI[of _ "snd ?p2"])
       (simp add: buying_requests buying_series approval_days_def del: plus_days_numeral)
qed

subsection \<open>The series of days elapsed\<close>

lemma phase_4_series:
  "days_elapsed_series (phase_4_pre_flight srv s lg) =
     days_elapsed_series lg @
     [get (r_days_elapsed (tool_result srv (requests_of lg @
        [GetMediaBuyDelivery (media_buy_id s) (minus_days (flight_start s) 2)]))) 0]"
  by (simp add: phase_4_pre_flight_def call_tool_eq Let_def del: minus_days_numeral)

lemma monitor_series:
  assumes "\<And>reqs mb today.
     r_days_elapsed (tool_result srv (reqs @ [GetMediaBuyDelivery mb today])) = Some (f today)"
  shows "days_elapsed_series (snd (monitor srv s ds dd lg)) = days_elapsed_series lg @ map f ds"
  by (induction ds arbitrary: dd lg) (simp_all add: monitor_Cons Let_def assms get_def)

lemma phase_6_series:
  "days_elapsed_series (phase_6_optimization srv s lg) =
     days_elapsed_series lg @
     [get (r_days_elapsed (tool_result srv (requests_of lg @
        [GetMediaBuyDelivery (media_buy_id s) (plus_days (flight_start s) 7)]))) 0]"
  by (simp add: phase_6_optimization_def call_tool_eq Let_def del: plus_days_numeral)

lemma phase_7_series:
  "days_elapsed_series (snd (phase_7_completion srv s lg)) =
     days_elapsed_series lg @
     [get (r_days_elapsed (tool_result srv (requests_of lg @
        [GetMediaBuyDelivery (media_buy_id s) (plus_days (flight_end s) 1)]))) 0]"
  by (simp add: phase_7_completion_eq Let_def del: plus_days_numeral)

lemma later_phases_series:
  assumes cal: "\<And>reqs mb today.
     r_days_elapsed (tool_result srv (reqs @ [GetMediaBuyDelivery mb today])) = Some (f today)"
  shows "days_elapsed_series (snd (phase_7_completion srv s (phase_6_optimization srv s
        (snd (phase_5_in_flight srv s (phase_4_pre_flight srv s lg)))))) =
     days_elapsed_series lg @
     map f ([minus_days (flight_start s) 2] @ monitoring_days s @
            [plus_days (flight_start s) 7, plus_days (flight_end s) 1])"
proof -
  have five: "days_elapsed_series (snd (phase_5_in_flight srv s lg')) =
      days_elapsed_series lg' @ map f (monitoring_days s)" for lg'
    using phase_5_in_flight_eq [of srv s lg'] by (auto simp: monitor_series [OF cal])
  show ?thesis
    unfolding phase_7_series phase_6_series five phase_4_series cal
    by (simp add: get_def del: plus_days_numeral minus_days_numeral)
qed

lemma read_dates_init:
  "[minus_days (flight_start (init pid)) 2] @ monitoring_days (init pid) @
     [plus_days (flight_start (init pid)) 7, plus_days (flight_end (init pid)) 1] =
   [Date 2025 7 30, Date 2025 8 1, Date 2025 8 3, Date 2025 8 6, Date 2025 8 9,
    Date 2025 8 8, Date 2025 8 16]"
  by (simp add: monitoring_days_def next_day_def prev_day_def days_in_month_def)

lemma toordinal_read_dates:
  "toordinal (Date 2025 7 30) = 739462" "toordinal (Date 2025 8 1) = 739464"
  "toordinal (Date 2025 8 3) = 739466" "toordinal (Date 2025 8 6) = 739469"
  "toordinal (Date 2025 8 9) = 739472" "toordinal (Date 2025 8 8) = 739471"
  "toordinal (Date 2025 8 16) = 739479"
  by (simp_all add: toordinal_def days_before_year_def days_in_month_def is_leap_def)

text \<open>
  The as-of dates of the delivery reads of a completed run from the initial state, and the
  \<open>days_elapsed\<close> series of the run when the service reports \<open>f\<close> of the as-of date.
\<close>

lemma run_delivery_dates:
  assumes ok: "truthy (r_media_buy_id (tool_result srv
                 [ListProducts planning_brief, CreateMediaBuy (make_buy_request (init pid))]))"
  shows "delivery_dates (requests_of (snd (run srv (init pid)))) =
     [Date 2025 7 30, Date 2025 8 1, Date 2025 8 3, Date 2025 8 6, Date 2025 8 9,
      Date 2025 8 8, Date 2025 8 16]"
proof -
  from run_completed(2) [OF refl ok refl]
  obtain n feedback action where
    fa: "delivery_dates (feedback @ action) = []" and
    reqs: "requests_of (snd (run srv (init pid))) =
      [ListProducts planning_brief, CreateMediaBuy (make_buy_request (init pid)),
       SubmitCreatives (r_media_buy_id (tool_result srv
          [ListProducts planning_brief, CreateMediaBuy (make_buy_request (init pid))]))
          submitted_creatives] @
      replicate n (CheckCreativeStatus (creative_ids (init pid
         \<lparr>products := get (r_products (tool_result srv [ListProducts planning_brief])) [],
          media_buy_id := r_media_buy_id (tool_result srv
            [ListProducts planning_brief, CreateMediaBuy (make_buy_request (init pid))]),
          creative_ids := creative_ids (init pid) @ map st_creative_id
            (get (r_statuses (tool_result srv
               [ListProducts planning_brief, CreateMediaBuy (make_buy_request (init pid)),
                SubmitCreatives (r_media_buy_id (tool_result srv
                  [ListProducts planning_brief, CreateMediaBuy (make_buy_request (init pid))]))
                  submitted_creatives])) [])\<rparr>))) @
      [GetMediaBuyDelivery (r_media_buy_id (tool_result srv
          [ListProducts planning_brief, CreateMediaBuy (make_buy_request (init pid))]))
         (minus_days (flight_start (init pid)) 2)] @
      map (GetMediaBuyDelivery (r_media_buy_id (tool_result srv
          [ListProducts planning_brief, CreateMediaBuy (make_buy_request (init pid))])))
        (monitoring_days (init pid)) @
      [GetMediaBuyDelivery (r_media_buy_id (tool_result srv
          [ListProducts planning_brief, CreateMediaBuy (make_buy_request (init pid))]))
         (plus_days (flight_start (init pid)) 7)] @
      feedback @ action @
      [GetMediaBuyDelivery (r_media_buy_id (tool_result srv
          [ListProducts planning_brief, CreateMediaBuy (make_buy_request (init pid))]))
         (plus_days (flight_end (init pid)) 1)]"
    by blast
  have "delivery_dates (requests_of (snd (run srv (init pid)))) =
      [minus_days (flight_start (init pid)) 2] @ monitoring_days (init pid) @
     [plus_days (flight_start (init pid)) 7, plus_days (flight_end (init pid)) 1]"
    unfolding reqs using fa
    by (simp del: plus_days_numeral minus_days_numeral init_fields)
  then show ?thesis
    by (simp only: read_dates_init)
qed

lemma run_series:
  assumes ok: "truthy (r_media_buy_id (tool_result srv
                 [ListProducts planning_brief, CreateMediaBuy (make_buy_request (init pid))]))"
    and cal: "\<And>reqs mb today.
     r_days_elapsed (tool_result srv (reqs @ [GetMediaBuyDelivery mb today])) = Some (f today)"
  shows "days_elapsed_series (snd (run srv (init pid))) =
     map f [Date 2025 7 30, Date 2025 8 1, Date 2025 8 3, Date 2025 8 6, Date 2025 8 9,
            Date 2025 8 8, Date 2025 8 16]"
proof -
  define s3 where "s3 = init pid
         \<lparr>products := get (r_products (tool_result srv [ListProducts planning_brief])) [],
          media_buy_id := r_media_buy_id (tool_result srv
            [ListProducts planning_brief, CreateMediaBuy (make_buy_request (init pid))]),
          creative_ids := creative_ids (init pid) @ map st_creative_id
            (get (r_statuses (tool_result srv
               [ListProducts planning_brief, CreateMediaBuy (make_buy_request (init pid)),
                SubmitCreatives (r_media_buy_id (tool_result srv
                  [ListProducts planning_brief, CreateMediaBuy (make_buy_request (init pid))]))
                  submitted_creatives])) [])\<rparr>"
  have fields: "flight_start s3 = flight_start (init pid)" "flight_end s3 = flight_end (init pid)"
    "monitoring_days s3 = monitoring_days (init pid)"
    by (simp_all add: s3_def monitoring_days_def del: plus_days_numeral init_fields)
  from run_log [OF refl ok s3_def] obtain lg2 where
    lg2: "days_elapsed_series lg2 = []" and
    log: "snd (run srv (init pid)) =
             snd (phase_7_completion srv s3 (phase_6_optimization srv s3
               (snd (phase_5_in_flight srv s3 (phase_4_pre_flight srv s3
                 (approval_checks srv s3
                    [plus_days (creative_date (init pid)) 1, plus_days (creative_date (init pid)) 2,
                     plus_days (creative_date (init pid)) 3]
                    (lg2 @ ShowDay (creative_date (init pid)) #
                       call_events srv (requests_of lg2)
                         (SubmitCreatives (r_media_buy_id (tool_result srv
                                [ListProducts planning_brief,
                                 CreateMediaBuy (make_buy_request (init pid))]))
                              submitted_creatives))))))))"
    by blast
  have "days_elapsed_series (snd (run srv (init pid))) =
      map f ([minus_days (flight_start (init pid)) 2] @ monitoring_days (init pid) @
     [plus_days (flight_start (init pid)) 7, plus_days (flight_end (init pid)) 1])"
    unfolding log later_phases_series [OF cal] fields
    by (simp add: lg2 del: plus_days_numeral minus_days_numeral init_fields)
  then show ?thesis
    by (simp only: read_dates_init)
qed

lemma toordinal_launch [simp]: "toordinal (Date 2025 8 (Suc 0)) = 739464"
  using toordinal_read_dates(2) by simp

lemma example_server_calendar:
  "r_days_elapsed (tool_result (example_server k p) (reqs @ [GetMediaBuyDelivery mb today])) =
     Some (max 0 (min 15 (toordinal today - toordinal (Date 2025 8 1))))"
  by (simp add: example_delivery_def Let_def)

lemma example_server_bought:
  "truthy (r_media_buy_id (tool_result (example_server k p)
      [ListProducts planning_brief, CreateMediaBuy (make_buy_request (init pid))]))"
  by (simp add: tool_result_def example_server_def structured_def truthy_def)

lemma example_series:
  "days_elapsed_series (snd (run (example_server k p) (init pid))) = [0, 0, 2, 5, 8, 7, 15]"
  by (simp add: run_series [OF example_server_bought example_server_calendar]
      toordinal_read_dates)

subsection \<open>The snapshots fetched and the CPM lines printed\<close>

lemma snapshots_append [simp]: "snapshots (xs @ ys) = snapshots xs @ snapshots ys"
  by (induction xs rule: snapshots.induct) simp_all

lemma snapshots_call_events_delivery [simp]:
  "snapshots (call_events srv reqs (GetMediaBuyDelivery mb today)) =
     [tool_result srv (reqs @ [GetMediaBuyDelivery mb today])]"
  by (simp add: call_events_def split: call_outcome.splits)

lemma snapshots_call_events_other [simp]:
  "snapshots (call_events srv reqs (UpdatePerformanceIndex mb ps)) = []"
  "snapshots (call_events srv reqs (UpdateMediaBuy mb ov)) = []"
  by (simp_all add: call_events_def split: call_outcome.splits)

lemma trend_bars_snapshots [simp]: "snapshots (snd (trend_bars m dd lg)) = snapshots lg"
  by (induction dd arbitrary: lg) (simp_all add: py_div_def say_def)

lemma show_performance_trend_snapshots [simp]:
  "snapshots (snd (show_performance_trend dd lg)) = snapshots lg"
  by (simp add: show_performance_trend_def)

text \<open>
  The monitoring loop fetches one snapshot per date and prints a CPM line for exactly
  those with positive impressions.
\<close>

lemma monitor_cpms:
  "\<exists>new. snapshots (snd (monitor srv s ds dd lg)) = snapshots lg @ new
     \<and> length new = length ds
     \<and> cpms_shown (snd (monitor srv s ds dd lg)) =
         cpms_shown lg @
         map (\<lambda>r. get (r_spend r) 0 / real_of_int (get (r_impressions r) 0) * 1000)
           (filter (\<lambda>r. 0 < get (r_impressions r) 0) new)"
proof (induction ds arbitrary: dd lg)
  case Nil
  show ?case by simp
next
  case (Cons d ds)
  let ?r = "tool_result srv (requests_of lg @ [GetMediaBuyDelivery (media_buy_id s) d])"
  have "\<exists>dd' mid. monitor srv s (d # ds) dd lg = monitor srv s ds dd' (lg @ mid)
      \<and> snapshots mid = [?r]
      \<and> cpms_shown mid =
          (if 0 < get (r_impressions ?r) 0
           then [get (r_spend ?r) 0 / real_of_int (get (r_impressions ?r) 0) * 1000] else [])"
    unfolding monitor_Cons Let_def
    by (intro exI conjI, rule refl) simp_all
  then obtain dd' mid where step: "monitor srv s (d # ds) dd lg = monitor srv s ds dd' (lg @ mid)"
    and mid: "snapshots mid = [?r]"
      "cpms_shown mid =
          (if 0 < get (r_impressions ?r) 0
           then [get (r_spend ?r) 0 / real_of_int (get (r_impressions ?r) 0) * 1000] else [])"
    by blast
  from Cons.IH [of dd' "lg @ mid"] obtain new where
    new: "snapshots (snd (monitor srv s ds dd' (lg @ mid))) = snapshots (lg @ mid) @ new"
      "length new = length ds"
      "cpms_shown (snd (monitor srv s ds dd' (lg @ mid))) =
         cpms_shown (lg @ mid) @
         map (\<lambda>r. get (r_spend r) 0 / real_of_int (get (r_impressions r) 0) * 1000)
           (filter (\<lambda>r. 0 < get (r_impressions r) 0) new)"
    by blast
  show ?case
    by (intro exI[of _ "?r # new"]) (simp add: step new mid)
qed

lemma monitor_snapshots:
  assumes "\<And>reqs mb today.
     tool_result srv (reqs @ [GetMediaBuyDelivery mb today]) = g today"
  shows "snapshots (snd (monitor srv s ds dd lg)) = snapshots lg @ map g ds"
  by (induction ds arbitrary: dd lg) (simp_all add: monitor_Cons Let_def assms)

lemma phase_5_cpms:
  "\<exists>new. snapshots (snd (phase_5_in_flight srv s lg)) = snapshots lg @ new
     \<and> length new = 4
     \<and> cpms_shown (snd (phase_5_in_flight srv s lg)) =
         cpms_shown lg @
         map (\<lambda>r. get (r_spend r) 0 / real_of_int (get (r_impressions r) 0) * 1000)
           (filter (\<lambda>r. 0 < get (r_impressions r) 0) new)"
  using phase_5_in_flight_eq [of srv s lg] monitor_cpms [of srv s "monitoring_days s" "[]" lg]
  by (auto simp: monitoring_days_def simp del: plus_days_numeral)

lemma phase_5_snapshots:
  assumes "\<And>reqs mb today.
     tool_result srv (reqs @ [GetMediaBuyDelivery mb today]) = g today"
  shows "snapshots (snd (phase_5_in_flight srv s lg)) = snapshots lg @ map g (monitoring_days s)"
  using phase_5_in_flight_eq [of srv s lg] by (auto simp: monitor_snapshots [OF assms])

lemma phase_7_snapshots:
  "snapshots (snd (phase_7_completion srv s lg)) =
     snapshots lg @ [tool_result srv (requests_of lg @
        [GetMediaBuyDelivery (media_buy_id s) (plus_days (flight_end s) 1)])]"
  by (simp add: phase_7_completion_eq Let_def del: plus_days_numeral)

lemma cpms_shown_delivery_notice [simp]:
  "cpms_shown (Say (delivery_notice p) # es) = cpms_shown es"
  by (simp add: delivery_notice_def)

lemma phase_7_cpms: "cpms_shown (snd (phase_7_completion srv s lg)) = cpms_shown lg"
  by (simp add: phase_7_completion_eq Let_def del: plus_days_numeral)

text \<open>A run raises nothing but the exception of phase 2.\<close>

lemma run_raises:
  "fst (run srv s) = Inl e \<Longrightarrow> e = MediaBuyCreationFailed"
  by (simp add: run_eq Let_def buying_state split: sum.splits if_splits)

subsection \<open>Two services with the same results\<close>



lemma quiet_delivery_notice [simp]:
  "quiet (Say (delivery_notice p) # es) = Say (delivery_notice p) # quiet es"
  by (simp add: delivery_notice_def)












section \<open>Claim C1: a missing media buy id aborts the run\<close>



section \<open>Claim C2: the approval checks stop at convergence\<close>




section \<open>Claim C3: performance feedback in the optimization cycle\<close>

text \<open>
  Claim C3. Whatever the service answers and whichever action branch follows, the
  optimization phase issues, right after its delivery read, one \<open>update_performance_index\<close>
  call for the media buy. Its single entry is for the product bought, its
  \<open>performance_index\<close> is 1.2 when the pacing of the snapshot just read is \<open>on_track\<close> and
  0.85 for any other pacing, a missing one included, and its \<open>confidence_score\<close> is 0.92.
  The calls of the action branch, if any, come after it.
\<close>

theorem feedback_always_sent:
  "\<exists>action.
     requests_of (phase_6_optimization srv s lg) =
       requests_of lg @
       [GetMediaBuyDelivery (media_buy_id s) (plus_days (flight_start s) 7),
        UpdatePerformanceIndex (media_buy_id s)
          [\<lparr>product_id = ''prod_video_guaranteed_sports'',
            performance_index =
              (if r_pacing (tool_result srv (requests_of lg @
                    [GetMediaBuyDelivery (media_buy_id s) (plus_days (flight_start s) 7)]))
                  = Some ''on_track''
               then 1.2 else 0.85),
            confidence_score = 0.92\<rparr>]] @ action"
  by (simp add: phase_6_requests Let_def)

theorem feedback_always_sent_witness:
  "requests_of (phase_6_optimization (example_server 1 ''on_track'')
      (init ''purina''\<lparr>media_buy_id := Some ''mb_1''\<rparr>) []) ! 1 =
     UpdatePerformanceIndex (Some ''mb_1'')
       [\<lparr>product_id = ''prod_video_guaranteed_sports'', performance_index = 1.2,
         confidence_score = 0.92\<rparr>]
   \<and> requests_of (phase_6_optimization (example_server 1 ''over_delivery'')
      (init ''purina''\<lparr>media_buy_id := Some ''mb_1''\<rparr>) []) ! 1 =
     UpdatePerformanceIndex (Some ''mb_1'')
       [\<lparr>product_id = ''prod_video_guaranteed_sports'', performance_index = 0.85,
         confidence_score = 0.92\<rparr>]
   \<and> requests_of (phase_6_optimization silent_server
      (init ''purina''\<lparr>media_buy_id := Some ''mb_1''\<rparr>) []) ! 1 =
     UpdatePerformanceIndex (Some ''mb_1'')
       [\<lparr>product_id = ''prod_video_guaranteed_sports'', performance_index = 0.85,
         confidence_score = 0.92\<rparr>]"
proof -
  let ?s = "init ''purina''\<lparr>media_buy_id := Some ''mb_1''\<rparr>"
  from feedback_always_sent [of "example_server 1 ''on_track''" ?s "[]"]
  have a: "requests_of (phase_6_optimization (example_server 1 ''on_track'') ?s []) ! 1 =
     UpdatePerformanceIndex (Some ''mb_1'')
       [\<lparr>product_id = ''prod_video_guaranteed_sports'', performance_index = 1.2,
         confidence_score = 0.92\<rparr>]"
    by (auto simp del: plus_days_numeral)
  from feedback_always_sent [of "example_server 1 ''over_delivery''" ?s "[]"]
  have b: "requests_of (phase_6_optimization (example_server 1 ''over_delivery'') ?s []) ! 1 =
     UpdatePerformanceIndex (Some ''mb_1'')
       [\<lparr>product_id = ''prod_video_guaranteed_sports'', performance_index = 0.85,
         confidence_score = 0.92\<rparr>]"
    by (auto simp del: plus_days_numeral)
  from feedback_always_sent [of silent_server ?s "[]"]
  have c: "requests_of (phase_6_optimization silent_server ?s []) ! 1 =
     UpdatePerformanceIndex (Some ''mb_1'')
       [\<lparr>product_id = ''prod_video_guaranteed_sports'', performance_index = 0.85,
         confidence_score = 0.92\<rparr>]"
    by (auto simp del: plus_days_numeral simp: empty_response_def)
  from a b c show ?thesis by blast
qed

section \<open>Claim C4: the completion classification\<close>

text \<open>
  Claim C4. The delivery percentage is \<open>spend / budget * 100\<close> for a positive budget and 0
  for a budget that is zero or negative, so the quotient never raises
  \<open>ZeroDivisionError\<close>. The tier is excellent exactly from 95 up, good exactly from 80 up to
  but excluding 95, and under-delivery exactly below 80. A spend of 47500 against 50000
  gives exactly 95 and excellent; 47499.99 gives 94.99998 and good. The completion phase
  returns normally, and the last three things it says are the percentage and its tier for
  the spend of the final snapshot (0 when missing) against the budget 50000, and the
  completion notice. Arithmetic is exact here.
\<close>

theorem completion_classification:
  "(0 < budget \<longrightarrow> delivery_pct_of spend budget = Inr (spend / budget * 100))
   \<and> (budget \<le> 0 \<longrightarrow> delivery_pct_of spend budget = Inr 0)
   \<and> (delivery_notice pct = ExcellentDelivery \<longleftrightarrow> 95 \<le> pct)
   \<and> (delivery_notice pct = GoodDelivery \<longleftrightarrow> 80 \<le> pct \<and> pct < 95)
   \<and> (delivery_notice pct = UnderDelivery \<longleftrightarrow> pct < 80)
   \<and> delivery_pct_of 47500 50000 = Inr 95
   \<and> delivery_notice 95 = ExcellentDelivery
   \<and> delivery_pct_of 47499.99 50000 = Inr 94.99998
   \<and> delivery_notice 94.99998 = GoodDelivery
   \<and> fst (phase_7_completion srv s lg) = Inr ()
   \<and> (\<exists>before delivery_pct.
         delivery_pct_of (get (r_spend (tool_result srv (requests_of lg @
            [GetMediaBuyDelivery (media_buy_id s) (plus_days (flight_end s) 1)]))) 0) 50000 =
           Inr delivery_pct
       \<and> snd (phase_7_completion srv s lg) =
           before @ [Say (BudgetUtilization delivery_pct), Say (delivery_notice delivery_pct),
                     Say LifecycleComplete])"
proof (intro conjI impI)
  let ?final = "tool_result srv (requests_of lg @
            [GetMediaBuyDelivery (media_buy_id s) (plus_days (flight_end s) 1)])"
  let ?pct = "get (r_spend ?final) 0 / 50000 * 100"
  show "fst (phase_7_completion srv s lg) = Inr ()"
    by (rule phase_7_ok)
  have pct: "delivery_pct_of (get (r_spend ?final) 0) 50000 = Inr ?pct"
    by (simp add: delivery_pct_of_eq)
  have "\<exists>before. snd (phase_7_completion srv s lg) =
           before @ [Say (BudgetUtilization ?pct), Say (delivery_notice ?pct),
                     Say LifecycleComplete]"
    by (simp add: phase_7_completion_eq Let_def del: plus_days_numeral)
  with pct show "\<exists>before delivery_pct.
         delivery_pct_of (get (r_spend ?final) 0) 50000 = Inr delivery_pct
       \<and> snd (phase_7_completion srv s lg) =
           before @ [Say (BudgetUtilization delivery_pct), Say (delivery_notice delivery_pct),
                     Say LifecycleComplete]"
    by blast
qed (simp_all add: delivery_pct_of_eq delivery_notice_def)

theorem completion_classification_witness:
  "delivery_pct_of 48000 50000 = Inr 96
   \<and> delivery_pct_of 48000 0 = Inr 0
   \<and> delivery_pct_of 48000 (-1) = Inr 0
   \<and> delivery_notice 96 = ExcellentDelivery
   \<and> delivery_notice 80 = GoodDelivery
   \<and> delivery_notice 79.99 = UnderDelivery
   \<and> (\<exists>before. snd (phase_7_completion silent_server (init ''purina'') []) =
         before @ [Say (BudgetUtilization 0), Say UnderDelivery, Say LifecycleComplete])"
proof -
  have a: "delivery_pct_of 48000 50000 = Inr 96"
    using completion_classification [of 50000 48000 0 silent_server "init ''purina''" "[]"] by simp
  have b: "delivery_pct_of 48000 0 = Inr 0"
    using completion_classification [of 0 48000 0 silent_server "init ''purina''" "[]"] by simp
  have c: "delivery_pct_of 48000 (-1) = Inr 0"
    using completion_classification [of "-1" 48000 0 silent_server "init ''purina''" "[]"] by simp
  have d: "delivery_notice 96 = ExcellentDelivery"
    using completion_classification [of 0 0 96 silent_server "init ''purina''" "[]"] by simp
  have e: "delivery_notice 80 = GoodDelivery"
    using completion_classification [of 0 0 80 silent_server "init ''purina''" "[]"] by simp
  have f: "delivery_notice 79.99 = UnderDelivery"
    using completion_classification [of 0 0 "79.99" silent_server "init ''purina''" "[]"] by simp
  have z: "delivery_pct_of 0 50000 = Inr 0" "delivery_notice 0 = UnderDelivery"
    by (simp_all add: delivery_pct_of_eq delivery_notice_def)
  from completion_classification [of 0 0 0 silent_server "init ''purina''" "[]"]
  obtain before delivery_pct where
    p: "delivery_pct_of (get (r_spend (tool_result silent_server (requests_of [] @
            [GetMediaBuyDelivery (media_buy_id (init ''purina''))
               (plus_days (flight_end (init ''purina'')) 1)]))) 0) 50000 = Inr delivery_pct"
    and l: "snd (phase_7_completion silent_server (init ''purina'') []) =
           before @ [Say (BudgetUtilization delivery_pct), Say (delivery_notice delivery_pct),
                     Say LifecycleComplete]"
    by blast
  from p have "delivery_pct = 0"
    by (simp add: empty_response_def get_def z del: plus_days_numeral)
  with l have g: "\<exists>before. snd (phase_7_completion silent_server (init ''purina'') []) =
         before @ [Say (BudgetUtilization 0), Say UnderDelivery, Say LifecycleComplete]"
    by (simp add: z)
  from a b c d e f g show ?thesis by blast
qed

section \<open>Claim C5: the optimization action follows the pacing\<close>

text \<open>
  Claim C5. Let the pacing be the one of the snapshot read in the optimization phase,
  \<open>unknown\<close> when it is missing. The calls the phase issues depend on it alone. For
  \<open>under_delivery\<close> they are the delivery read, the feedback and exactly one
  \<open>update_media_buy\<close>, which carries the widened overlay: the geographies of the buy plus
  Texas and Florida (two more entries, no duplicates) and the excluded categories of the
  buy without \<open>politics\<close> (one entry fewer). For \<open>over_delivery\<close> they are the delivery read
  and the feedback only, and the phase ends on the over-delivery notice. For any other
  pacing they are the delivery read and the feedback only, and the phase ends on the
  on-track notice.
\<close>

theorem optimization_action_by_pacing:
  "(let pacing = get (r_pacing (tool_result srv (requests_of lg @
        [GetMediaBuyDelivery (media_buy_id s) (plus_days (flight_start s) 7)]))) ''unknown'';
        issued = drop (length (requests_of lg)) (requests_of (phase_6_optimization srv s lg));
        done = phase_6_optimization srv s lg
    in (pacing = ''under_delivery'' \<longrightarrow>
          map tool_name issued =
            [''get_media_buy_delivery'', ''update_performance_index'', ''update_media_buy'']
        \<and> last issued = UpdateMediaBuy (media_buy_id s) expanded_overlay
        \<and> Say UnderDelivering \<in> set done)
     \<and> (pacing = ''over_delivery'' \<longrightarrow>
          map tool_name issued = [''get_media_buy_delivery'', ''update_performance_index'']
        \<and> last done = Say OverDelivering)
     \<and> (pacing \<noteq> ''under_delivery'' \<and> pacing \<noteq> ''over_delivery'' \<longrightarrow>
          map tool_name issued = [''get_media_buy_delivery'', ''update_performance_index'']
        \<and> last done = Say PacingOnTrack))
   \<and> set (geography expanded_overlay) =
       set (geography (targeting (make_buy_request s))) \<union> {''USA-TX'', ''USA-FL''}
   \<and> length (geography expanded_overlay) =
       length (geography (targeting (make_buy_request s))) + 2
   \<and> distinct (geography expanded_overlay)
   \<and> set (content_categories_exclude expanded_overlay) =
       set (content_categories_exclude (targeting (make_buy_request s))) - {''politics''}
   \<and> length (content_categories_exclude expanded_overlay) + 1 =
       length (content_categories_exclude (targeting (make_buy_request s)))"
proof -
  let ?snap = "tool_result srv (requests_of lg @
        [GetMediaBuyDelivery (media_buy_id s) (plus_days (flight_start s) 7)])"
  have under: "get (r_pacing ?snap) ''unknown'' = ''under_delivery'' \<longleftrightarrow>
      r_pacing ?snap = Some ''under_delivery''"
    by (cases "r_pacing ?snap") (simp_all add: get_def)
  have overlay: "set (geography expanded_overlay) =
       set (geography (targeting (make_buy_request s))) \<union> {''USA-TX'', ''USA-FL''}"
    "length (geography expanded_overlay) =
       length (geography (targeting (make_buy_request s))) + 2"
    "distinct (geography expanded_overlay)"
    "set (content_categories_exclude expanded_overlay) =
       set (content_categories_exclude (targeting (make_buy_request s))) - {''politics''}"
    "length (content_categories_exclude expanded_overlay) + 1 =
       length (content_categories_exclude (targeting (make_buy_request s)))"
    by (auto simp: expanded_overlay_def make_buy_request_def)
  have said: "get (r_pacing ?snap) ''unknown'' = ''under_delivery'' \<Longrightarrow>
       Say UnderDelivering \<in> set (phase_6_optimization srv s lg)"
    "get (r_pacing ?snap) ''unknown'' = ''over_delivery'' \<Longrightarrow>
       last (phase_6_optimization srv s lg) = Say OverDelivering"
    "get (r_pacing ?snap) ''unknown'' \<noteq> ''under_delivery'' \<Longrightarrow>
     get (r_pacing ?snap) ''unknown'' \<noteq> ''over_delivery'' \<Longrightarrow>
       last (phase_6_optimization srv s lg) = Say PacingOnTrack"
    by (simp_all add: phase_6_optimization_def call_tool_eq Let_def show_day_def say_def
        del: plus_days_numeral)
  have issued: "drop (length (requests_of lg)) (requests_of (phase_6_optimization srv s lg)) =
      [GetMediaBuyDelivery (media_buy_id s) (plus_days (flight_start s) 7),
          UpdatePerformanceIndex (media_buy_id s)
            [\<lparr>product_id = ''prod_video_guaranteed_sports'',
              performance_index = (if r_pacing ?snap = Some ''on_track'' then 1.2 else 0.85),
              confidence_score = 0.92\<rparr>]] @
         (if get (r_pacing ?snap) ''unknown'' = ''under_delivery''
          then [UpdateMediaBuy (media_buy_id s) expanded_overlay] else [])"
    by (simp add: phase_6_requests Let_def under del: plus_days_numeral)
  show ?thesis
    unfolding Let_def issued using said overlay by simp
qed

theorem optimization_action_by_pacing_witness:
  "map tool_name (requests_of (phase_6_optimization (example_server 1 ''under_delivery'')
       (init ''purina''\<lparr>media_buy_id := Some ''mb_1''\<rparr>) [])) =
     [''get_media_buy_delivery'', ''update_performance_index'', ''update_media_buy'']
   \<and> last (requests_of (phase_6_optimization (example_server 1 ''under_delivery'')
       (init ''purina''\<lparr>media_buy_id := Some ''mb_1''\<rparr>) [])) =
     UpdateMediaBuy (Some ''mb_1'') expanded_overlay
   \<and> map tool_name (requests_of (phase_6_optimization (example_server 1 ''over_delivery'')
       (init ''purina''\<lparr>media_buy_id := Some ''mb_1''\<rparr>) [])) =
     [''get_media_buy_delivery'', ''update_performance_index'']
   \<and> last (phase_6_optimization (example_server 1 ''over_delivery'')
       (init ''purina''\<lparr>media_buy_id := Some ''mb_1''\<rparr>) []) = Say OverDelivering
   \<and> map tool_name (requests_of (phase_6_optimization silent_server
       (init ''purina''\<lparr>media_buy_id := Some ''mb_1''\<rparr>) [])) =
     [''get_media_buy_delivery'', ''update_performance_index'']
   \<and> last (phase_6_optimization silent_server
       (init ''purina''\<lparr>media_buy_id := Some ''mb_1''\<rparr>) []) = Say PacingOnTrack"
proof -
  let ?s = "init ''purina''\<lparr>media_buy_id := Some ''mb_1''\<rparr>"
  have a: "map tool_name (requests_of (phase_6_optimization (example_server 1 ''under_delivery'') ?s [])) =
     [''get_media_buy_delivery'', ''update_performance_index'', ''update_media_buy'']
   \<and> last (requests_of (phase_6_optimization (example_server 1 ''under_delivery'') ?s [])) =
     UpdateMediaBuy (Some ''mb_1'') expanded_overlay"
    using optimization_action_by_pacing [where srv = "example_server 1 ''under_delivery''" and lg = "[]" and s = ?s]
    by (simp add: Let_def get_def del: plus_days_numeral)
  have b: "map tool_name (requests_of (phase_6_optimization (example_server 1 ''over_delivery'') ?s [])) =
     [''get_media_buy_delivery'', ''update_performance_index'']
   \<and> last (phase_6_optimization (example_server 1 ''over_delivery'') ?s []) = Say OverDelivering"
    using optimization_action_by_pacing [where srv = "example_server 1 ''over_delivery''" and lg = "[]" and s = ?s]
    by (simp add: Let_def get_def del: plus_days_numeral)
  have c: "map tool_name (requests_of (phase_6_optimization silent_server ?s [])) =
     [''get_media_buy_delivery'', ''update_performance_index'']
   \<and> last (phase_6_optimization silent_server ?s []) = Say PacingOnTrack"
    using optimization_action_by_pacing [where srv = silent_server and lg = "[]" and s = ?s]
    by (simp add: Let_def get_def empty_response_def del: plus_days_numeral)
  from a b c show ?thesis by blast
qed

section \<open>Claim C6: a failed status poll\<close>

text \<open>
  Claim C6 says that a failed status poll changes nothing and that polling goes on through
  the remaining check dates. The run below is against a service that accepts the buy,
  reports both submitted creatives as pending, and whose first \<open>check_creative_status\<close>
  call (the fourth call of the run) raises; it would report pending on a second check. The
  failed call is reported and comes back as the empty result, the loop over its statuses
  runs zero times
  and leaves the flag true, so the run announces that all creatives are approved and
  leaves the loop: it completes with a single status query, the checks of the second and
  third dates are never issued, and the last statuses known are still pending.
\<close>

theorem failed_poll_ends_polling:
  "\<not> isl (fst (run (failing_call 4 (example_server 3 ''on_track'')) (init ''purina'')))
   \<and> map st_status (get (r_statuses (tool_result (failing_call 4 (example_server 3 ''on_track''))
         [ListProducts planning_brief, CreateMediaBuy (make_buy_request (init ''purina'')),
          SubmitCreatives (Some ''mb_1'') submitted_creatives])) []) =
       [Some ''pending'', Some ''pending'']
   \<and> check_ids (requests_of (snd (run (failing_call 4 (example_server 3 ''on_track''))
         (init ''purina'')))) =
       [[Some ''cr_purina_dog_30s_v1'', Some ''cr_purina_cat_30s_v1'']]
   \<and> Say (ErrorCalling ''check_creative_status'') \<in>
       set (snd (run (failing_call 4 (example_server 3 ''on_track'')) (init ''purina'')))
   \<and> Say AllCreativesApproved \<in>
       set (snd (run (failing_call 4 (example_server 3 ''on_track'')) (init ''purina'')))"
proof -
  let ?srv = "failing_call 4 (example_server 3 ''on_track'')"
  let ?s = "init ''purina''"
  let ?ids = "[Some ''cr_purina_dog_30s_v1'', Some ''cr_purina_cat_30s_v1'']"
  let ?submit = "SubmitCreatives (Some ''mb_1'') submitted_creatives"
  define s3 where "s3 = ?s\<lparr>products := get (r_products (tool_result ?srv [ListProducts planning_brief])) [],
                    media_buy_id := Some ''mb_1'',
                    creative_ids := creative_ids ?s @ map st_creative_id
                      (get (r_statuses (tool_result ?srv
                        [ListProducts planning_brief, CreateMediaBuy (make_buy_request ?s),
                         ?submit])) [])\<rparr>"
  have mb: "Some ''mb_1'' = r_media_buy_id (tool_result ?srv
      [ListProducts planning_brief, CreateMediaBuy (make_buy_request ?s)])"
    by (simp add: example_server_buy)
  have ok: "truthy (Some ''mb_1'')"
    by (simp add: truthy_def)
  have ids: "creative_ids s3 = ?ids"
    by (simp add: s3_def example_server_submit get_def submitted_creatives_def)
  have completes: "\<not> isl (fst (run ?srv ?s))"
    by (simp add: example_run_state)
  have pending: "map st_status (get (r_statuses (tool_result ?srv
         [ListProducts planning_brief, CreateMediaBuy (make_buy_request ?s), ?submit])) []) =
       [Some ''pending'', Some ''pending'']"
    by (simp add: example_server_submit get_def submitted_creatives_def)
  from run_log [OF mb ok s3_def] obtain lg2 where
    lg2: "requests_of lg2 = [ListProducts planning_brief, CreateMediaBuy (make_buy_request ?s)]"
    and log: "snd (run ?srv ?s) =
             snd (phase_7_completion ?srv s3 (phase_6_optimization ?srv s3
               (snd (phase_5_in_flight ?srv s3 (phase_4_pre_flight ?srv s3
                 (approval_checks ?srv s3
                    [plus_days (creative_date ?s) 1, plus_days (creative_date ?s) 2,
                     plus_days (creative_date ?s) 3]
                    (lg2 @ ShowDay (creative_date ?s) #
                       call_events ?srv (requests_of lg2) ?submit)))))))"
    by blast
  let ?lg3 = "lg2 @ ShowDay (creative_date ?s) # call_events ?srv (requests_of lg2) ?submit"
  let ?check = "CheckCreativeStatus (creative_ids s3)"
  have reqs3: "requests_of ?lg3 =
      [ListProducts planning_brief, CreateMediaBuy (make_buy_request ?s), ?submit]"
    by (simp add: lg2)
  have failed: "tool_result ?srv (requests_of ?lg3 @ [CheckCreativeStatus (creative_ids s3)]) =
      empty_response"
    unfolding reqs3 by (simp add: tool_result_def failing_call_def)
  have vacuous: "\<forall>st\<in>set (get (r_statuses (tool_result ?srv
      (requests_of ?lg3 @ [CheckCreativeStatus (creative_ids s3)]))) []).
        st_status st = Some ''approved''"
    unfolding failed by (simp add: empty_response_def get_def)
  have checks: "approval_checks ?srv s3
      [plus_days (creative_date ?s) 1, plus_days (creative_date ?s) 2,
       plus_days (creative_date ?s) 3] ?lg3 =
      ?lg3 @ ShowDay (plus_days (creative_date ?s) 1) #
        call_events ?srv (requests_of ?lg3) ?check @ [Say AllCreativesApproved]"
    using approval_checks_first_approved [OF vacuous] .
  have raised: "call_events ?srv (requests_of ?lg3) ?check =
      [Say (ErrorCalling ''check_creative_status''), Call ?check empty_response]"
    unfolding reqs3 by (simp add: call_events_def tool_result_def failing_call_def)
  have one: "check_ids (requests_of (snd (run ?srv ?s))) = [?ids]"
    by (simp only: log later_phases_check_ids checks)
       (simp add: lg2 ids del: plus_days_numeral)
  from later_phases_extend [of ?srv s3 "?lg3 @ ShowDay (plus_days (creative_date ?s) 1) #
        call_events ?srv (requests_of ?lg3) ?check @ [Say AllCreativesApproved]"]
  obtain ev where "snd (run ?srv ?s) = (?lg3 @ ShowDay (plus_days (creative_date ?s) 1) #
        call_events ?srv (requests_of ?lg3) ?check @ [Say AllCreativesApproved]) @ ev"
    unfolding log checks by blast
  then have "snd (run ?srv ?s) = (?lg3 @ ShowDay (plus_days (creative_date ?s) 1) #
        [Say (ErrorCalling ''check_creative_status''), Call ?check empty_response] @
        [Say AllCreativesApproved]) @ ev"
    by (simp only: raised)
  then have said: "Say (ErrorCalling ''check_creative_status'') \<in> set (snd (run ?srv ?s))"
    "Say AllCreativesApproved \<in> set (snd (run ?srv ?s))"
    by simp_all
  from completes pending one said show ?thesis by blast
qed

section \<open>Claim C7: the order of the delivery snapshots\<close>

text \<open>
  Claim C7, as amended. In every run from the initial state that is not aborted, the
  delivery reads are made as of 30 July, 1, 3, 6 and 9 August (two days before launch,
  launch day and 2, 5 and 8 days into the flight), then 8 August (the optimization read,
  7 days into the flight) and 16 August (one day after the end of the flight). The run
  takes \<open>days_elapsed\<close> from the service as it comes. When the service reports it as a
  function \<open>f\<close> of the as-of date that never decreases as the date advances, the series of
  \<open>days_elapsed\<close> is \<open>f\<close> of these dates in this order: it is non-decreasing over the first
  five snapshots and over the last two, while the sixth snapshot, dated a day before the
  fifth, may report less than the fifth.
\<close>

theorem delivery_snapshots_order:
  assumes bought: "truthy (r_media_buy_id (tool_result srv
                 [ListProducts planning_brief, CreateMediaBuy (make_buy_request (init pid))]))"
    and cal: "\<And>reqs mb today.
       r_days_elapsed (tool_result srv (reqs @ [GetMediaBuyDelivery mb today])) = Some (f today)"
    and mono: "\<And>a b. date_le a b \<Longrightarrow> f a \<le> f b"
  shows "delivery_dates (requests_of (snd (run srv (init pid)))) =
           [Date 2025 7 30, Date 2025 8 1, Date 2025 8 3, Date 2025 8 6, Date 2025 8 9,
            Date 2025 8 8, Date 2025 8 16]
       \<and> days_elapsed_series (snd (run srv (init pid))) =
           map f [Date 2025 7 30, Date 2025 8 1, Date 2025 8 3, Date 2025 8 6, Date 2025 8 9,
                  Date 2025 8 8, Date 2025 8 16]
       \<and> sorted (take 5 (days_elapsed_series (snd (run srv (init pid)))))
       \<and> sorted (drop 5 (days_elapsed_series (snd (run srv (init pid)))))"
proof -
  have le: "f (Date 2025 7 30) \<le> f (Date 2025 8 1)" "f (Date 2025 8 1) \<le> f (Date 2025 8 3)"
    "f (Date 2025 8 3) \<le> f (Date 2025 8 6)" "f (Date 2025 8 6) \<le> f (Date 2025 8 9)"
    "f (Date 2025 8 8) \<le> f (Date 2025 8 16)"
    by (rule mono, simp add: date_le_def toordinal_read_dates)+
  have series: "days_elapsed_series (snd (run srv (init pid))) =
           map f [Date 2025 7 30, Date 2025 8 1, Date 2025 8 3, Date 2025 8 6, Date 2025 8 9,
                  Date 2025 8 8, Date 2025 8 16]"
    by (rule run_series [OF bought cal])
  show ?thesis
    using le by (simp add: run_delivery_dates [OF bought] series)
qed

theorem delivery_snapshots_order_witness:
  "days_elapsed_series (snd (run (example_server 2 ''on_track'') (init ''purina''))) =
     [0, 0, 2, 5, 8, 7, 15]
   \<and> sorted (take 5 (days_elapsed_series (snd (run (example_server 2 ''on_track'')
        (init ''purina'')))))
   \<and> sorted (drop 5 (days_elapsed_series (snd (run (example_server 2 ''on_track'')
        (init ''purina'')))))"
proof -
  have mono: "date_le a b \<Longrightarrow>
      max 0 (min 15 (toordinal a - toordinal (Date 2025 8 1))) \<le>
      max 0 (min 15 (toordinal b - toordinal (Date 2025 8 1)))" for a b
    by (simp add: date_le_def)
  from delivery_snapshots_order [of "example_server 2 ''on_track''" "''purina''"
      "\<lambda>d. max 0 (min 15 (toordinal d - toordinal (Date 2025 8 1)))",
      OF example_server_bought example_server_calendar mono]
  show ?thesis
    by (simp add: toordinal_read_dates)
qed

text \<open>
  The claim as stated fails for the example service, which counts \<open>days_elapsed\<close> from the
  as-of date: the series of the run is 0, 0, 2, 5, 8, 7, 15.
\<close>

theorem delivery_snapshots_counterexample:
  "\<not> sorted (days_elapsed_series (snd (run (example_server 2 ''on_track'') (init ''purina''))))"
  by (simp add: example_series)

section \<open>Claim C8: the tracked creative identifiers\<close>

text \<open>
  Claim C8, as amended. In every run that is not aborted, the tracked creative identifiers
  after the creative-submission phase are exactly the \<open>creative_id\<close> values of the
  statuses that the \<open>submit_creatives\<close> response returned, in the order returned, with
  \<open>None\<close> where a status has no id; and the run issues between one and three
  \<open>check_creative_status\<close> calls, each carrying exactly this list. The submitted
  identifiers themselves are not consulted.
\<close>

theorem tracked_ids_are_returned_ids:
  assumes "fst (run srv (init pid)) = Inr s'"
  shows "creative_ids s' =
           map st_creative_id (get (r_statuses (tool_result srv
             [ListProducts planning_brief, CreateMediaBuy (make_buy_request (init pid)),
              SubmitCreatives (media_buy_id s') submitted_creatives])) [])
       \<and> (\<exists>n. 0 < n \<and> n \<le> 3 \<and>
             check_ids (requests_of (snd (run srv (init pid)))) = replicate n (creative_ids s'))"
proof -
  let ?mb = "r_media_buy_id (tool_result srv
      [ListProducts planning_brief, CreateMediaBuy (make_buy_request (init pid))])"
  let ?s3 = "init pid\<lparr>products := get (r_products (tool_result srv [ListProducts planning_brief])) [],
                    media_buy_id := ?mb,
                    creative_ids := creative_ids (init pid) @ map st_creative_id
                      (get (r_statuses (tool_result srv
                        [ListProducts planning_brief, CreateMediaBuy (make_buy_request (init pid)),
                         SubmitCreatives ?mb submitted_creatives])) [])\<rparr>"
  have ok: "truthy ?mb"
    using assms run_aborted [of srv "init pid"] by auto
  from run_completed(1) [OF refl ok refl] assms have s': "s' = ?s3"
    by simp
  have ids: "creative_ids ?s3 = map st_creative_id (get (r_statuses (tool_result srv
             [ListProducts planning_brief, CreateMediaBuy (make_buy_request (init pid)),
              SubmitCreatives ?mb submitted_creatives])) [])"
    by simp
  from run_completed(2) [OF refl ok refl, of]
  obtain n feedback action where n: "0 < n" "n \<le> 3"
    "check_ids (feedback @ action) = []"
    "requests_of (snd (run srv (init pid))) =
             [ListProducts planning_brief, CreateMediaBuy (make_buy_request (init pid)),
              SubmitCreatives ?mb submitted_creatives] @
             replicate n (CheckCreativeStatus (creative_ids ?s3)) @
             [GetMediaBuyDelivery ?mb (minus_days (flight_start (init pid)) 2)] @
             map (GetMediaBuyDelivery ?mb) (monitoring_days (init pid)) @
             [GetMediaBuyDelivery ?mb (plus_days (flight_start (init pid)) 7)] @
             feedback @ action @
             [GetMediaBuyDelivery ?mb (plus_days (flight_end (init pid)) 1)]"
    by blast
  have "check_ids (requests_of (snd (run srv (init pid)))) = replicate n (creative_ids ?s3)"
    using n(3) by (simp add: n(4) del: plus_days_numeral minus_days_numeral)
  with n(1,2) ids show ?thesis
    unfolding s' by (intro conjI exI[of _ n]) simp_all
qed

theorem tracked_ids_are_returned_ids_witness:
  "creative_ids (projr (fst (run (failing_call 0 (example_server 2 ''on_track'')) (init ''purina'')))) =
     [Some ''cr_purina_dog_30s_v1'', Some ''cr_purina_cat_30s_v1'']
   \<and> (\<exists>n. 0 < n \<and> n \<le> 3 \<and>
         check_ids (requests_of (snd (run (failing_call 0 (example_server 2 ''on_track''))
           (init ''purina'')))) =
         replicate n [Some ''cr_purina_dog_30s_v1'', Some ''cr_purina_cat_30s_v1''])"
proof -
  let ?srv = "failing_call 0 (example_server 2 ''on_track'')"
  let ?s = "init ''purina''
        \<lparr>products := get (r_products (tool_result ?srv [ListProducts planning_brief])) [],
         media_buy_id := Some ''mb_1'',
         creative_ids := [Some ''cr_purina_dog_30s_v1'', Some ''cr_purina_cat_30s_v1'']\<rparr>"
  have h: "fst (run ?srv (init ''purina'')) = Inr ?s"
    by (simp add: example_run_state)
  from tracked_ids_are_returned_ids [OF h]
  have "\<exists>n. 0 < n \<and> n \<le> 3 \<and>
      check_ids (requests_of (snd (run ?srv (init ''purina'')))) = replicate n (creative_ids ?s)"
    by blast
  then show ?thesis
    by (simp add: h)
qed

text \<open>
  The claim as stated fails when the \<open>submit_creatives\<close> call fails: the run goes on
  with no tracked identifier, although two creatives were submitted.
\<close>

theorem tracked_ids_counterexample:
  "fst (run (failing_call 3 (example_server 2 ''on_track'')) (init ''purina'')) =
     Inr (init ''purina''
        \<lparr>products := [\<lparr>prod_product_id = Some ''prod_video_guaranteed_sports'',
                        prod_name = Some ''Sports Video - Guaranteed'',
                        prod_delivery_type = Some ''guaranteed'',
                        prod_cpm = Some 15,
                        prod_is_fixed_price = Some True\<rparr>],
         media_buy_id := Some ''mb_1'',
         creative_ids := []\<rparr>)
   \<and> set (creative_ids (projr (fst (run (failing_call 3 (example_server 2 ''on_track''))
         (init ''purina''))))) \<noteq>
       set (map (\<lambda>c. Some (creative_id c)) submitted_creatives)"
  by (simp add: example_run_state example_server_products get_def submitted_creatives_def)

section \<open>Claim C9: the effective CPM is guarded\<close>

text \<open>
  Claim C9. The quotient \<open>spend / impressions * 1000\<close> would raise \<open>ZeroDivisionError\<close>
  exactly on a snapshot with 0 impressions (a missing count reads as 0), and it is
  evaluated only on snapshots with positive impressions, where it gives the effective CPM.
  In-flight monitoring, from any log, against any service: the phase returns normally; it
  fetches four snapshots and prints a CPM line for exactly those with positive
  impressions, in order, each with that snapshot's quotient, so a snapshot with 0
  impressions gets no CPM line. Completion: the phase returns normally and prints no CPM
  line of its own; the summary panel of the snapshot it fetches carries the quotient when
  the impressions are positive and is empty otherwise, the conditional of the source
  covering the whole panel. So no run ends in \<open>ZeroDivisionError\<close>.
\<close>

theorem effective_cpm_guarded:
  "(0 < get (r_impressions r) 0 \<longrightarrow>
      effective_cpm r = Inr (get (r_spend r) 0 / real_of_int (get (r_impressions r) 0) * 1000))
   \<and> (effective_cpm r = Inl ZeroDivisionError \<longleftrightarrow> get (r_impressions r) 0 = 0)
   \<and> fst (phase_5_in_flight srv s lg) = Inr ()
   \<and> (\<exists>new. snapshots (snd (phase_5_in_flight srv s lg)) = snapshots lg @ new
         \<and> length new = 4
         \<and> cpms_shown (snd (phase_5_in_flight srv s lg)) =
             cpms_shown lg @
             map (\<lambda>r. get (r_spend r) 0 / real_of_int (get (r_impressions r) 0) * 1000)
               (filter (\<lambda>r. 0 < get (r_impressions r) 0) new))
   \<and> fst (phase_7_completion srv s lg) = Inr ()
   \<and> cpms_shown (snd (phase_7_completion srv s lg)) = cpms_shown lg
   \<and> (\<exists>final. snapshots (snd (phase_7_completion srv s lg)) = snapshots lg @ [final]
         \<and> Say (CampaignSummary
                 (if 0 < get (r_impressions final) 0
                  then Summary (media_buy_id s) (get (r_status final) ''unknown'')
                         (get (r_spend final) 0) (get (r_impressions final) 0)
                         (get (r_spend final) 0 / real_of_int (get (r_impressions final) 0)
                            * 1000)
                  else EmptyPanel))
             \<in> set (snd (phase_7_completion srv s lg)))
   \<and> (get (r_impressions r) 0 \<le> 0 \<longrightarrow> summary_panel s r = Inr EmptyPanel)
   \<and> fst (run srv s) \<noteq> Inl ZeroDivisionError"
proof (intro conjI impI)
  assume "0 < get (r_impressions r) 0"
  then show "effective_cpm r =
      Inr (get (r_spend r) 0 / real_of_int (get (r_impressions r) 0) * 1000)"
    by (rule effective_cpm_eq)
next
  show "effective_cpm r = Inl ZeroDivisionError \<longleftrightarrow> get (r_impressions r) 0 = 0"
    by (simp add: effective_cpm_def py_div_def)
next
  show "fst (phase_5_in_flight srv s lg) = Inr ()"
    by (rule phase_5_ok)
next
  show "\<exists>new. snapshots (snd (phase_5_in_flight srv s lg)) = snapshots lg @ new
         \<and> length new = 4
         \<and> cpms_shown (snd (phase_5_in_flight srv s lg)) =
             cpms_shown lg @
             map (\<lambda>r. get (r_spend r) 0 / real_of_int (get (r_impressions r) 0) * 1000)
               (filter (\<lambda>r. 0 < get (r_impressions r) 0) new)"
    by (rule phase_5_cpms)
next
  show "fst (phase_7_completion srv s lg) = Inr ()"
    by (rule phase_7_ok)
next
  show "cpms_shown (snd (phase_7_completion srv s lg)) = cpms_shown lg"
    by (rule phase_7_cpms)
next
  let ?final = "tool_result srv (requests_of lg @
        [GetMediaBuyDelivery (media_buy_id s) (plus_days (flight_end s) 1)])"
  have "Say (CampaignSummary
                 (if 0 < get (r_impressions ?final) 0
                  then Summary (media_buy_id s) (get (r_status ?final) ''unknown'')
                         (get (r_spend ?final) 0) (get (r_impressions ?final) 0)
                         (get (r_spend ?final) 0 / real_of_int (get (r_impressions ?final) 0)
                            * 1000)
                  else EmptyPanel))
             \<in> set (snd (phase_7_completion srv s lg))"
    by (simp add: phase_7_completion_eq Let_def del: plus_days_numeral)
  then show "\<exists>final. snapshots (snd (phase_7_completion srv s lg)) = snapshots lg @ [final]
         \<and> Say (CampaignSummary
                 (if 0 < get (r_impressions final) 0
                  then Summary (media_buy_id s) (get (r_status final) ''unknown'')
                         (get (r_spend final) 0) (get (r_impressions final) 0)
                         (get (r_spend final) 0 / real_of_int (get (r_impressions final) 0)
                            * 1000)
                  else EmptyPanel))
             \<in> set (snd (phase_7_completion srv s lg))"
    by (intro exI[of _ ?final] conjI phase_7_snapshots)
next
  assume "get (r_impressions r) 0 \<le> 0"
  then show "summary_panel s r = Inr EmptyPanel"
    by (simp add: summary_panel_def)
next
  show "fst (run srv s) \<noteq> Inl ZeroDivisionError"
    using run_raises [of srv s ZeroDivisionError] by auto
qed

theorem effective_cpm_guarded_witness:
  "effective_cpm (example_delivery ''on_track'' (Date 2025 8 3)) = Inr 32
   \<and> effective_cpm empty_response = Inl ZeroDivisionError
   \<and> summary_panel (init ''purina'') empty_response = Inr EmptyPanel
   \<and> map (\<lambda>r. get (r_impressions r) 0)
         (snapshots (snd (phase_5_in_flight (example_server 2 ''on_track'')
            (init ''purina''\<lparr>media_buy_id := Some ''mb_1''\<rparr>) []))) =
       [0, 200000, 500000, 800000]
   \<and> cpms_shown (snd (phase_5_in_flight (example_server 2 ''on_track'')
         (init ''purina''\<lparr>media_buy_id := Some ''mb_1''\<rparr>) [])) = [32, 32, 32]
   \<and> cpms_shown (snd (phase_5_in_flight silent_server
         (init ''purina''\<lparr>media_buy_id := Some ''mb_1''\<rparr>) [])) = []"
proof -
  let ?srv = "example_server 2 ''on_track''"
  let ?s = "init ''purina''\<lparr>media_buy_id := Some ''mb_1''\<rparr>"
  let ?r = "example_delivery ''on_track'' (Date 2025 8 3)"
  let ?cpm = "\<lambda>r. get (r_spend r) 0 / real_of_int (get (r_impressions r) 0) * 1000"
  let ?pos = "\<lambda>r. 0 < get (r_impressions r) 0"
  have days: "monitoring_days ?s = [Date 2025 8 1, Date 2025 8 3, Date 2025 8 6, Date 2025 8 9]"
    by (simp add: monitoring_days_def next_day_def days_in_month_def)
  have fields: "get (r_impressions (example_delivery p (Date 2025 8 1))) 0 = 0"
    "get (r_impressions (example_delivery p (Date 2025 8 3))) 0 = 200000"
    "get (r_impressions (example_delivery p (Date 2025 8 6))) 0 = 500000"
    "get (r_impressions (example_delivery p (Date 2025 8 9))) 0 = 800000"
    "get (r_spend (example_delivery p (Date 2025 8 3))) 0 = 6400"
    "get (r_spend (example_delivery p (Date 2025 8 6))) 0 = 16000"
    "get (r_spend (example_delivery p (Date 2025 8 9))) 0 = 25600" for p
    by (simp_all add: example_delivery_def Let_def get_def empty_response_def
        toordinal_read_dates)
  have launch: "get (r_impressions (example_delivery p (Date 2025 8 (Suc 0)))) 0 = 0" for p
    using fields(1) [of p] by simp
  have empty: "get (r_impressions empty_response) 0 = 0"
    by (simp add: empty_response_def get_def)
  note ex = effective_cpm_guarded [of ?r ?srv ?s "[]"]
  note si = effective_cpm_guarded [of empty_response silent_server "init ''purina''" "[]"]
  note sm = effective_cpm_guarded [of empty_response silent_server ?s "[]"]
  have a: "effective_cpm ?r = Inr 32"
    using ex by (simp add: fields)
  have b: "effective_cpm empty_response = Inl ZeroDivisionError"
    using si by (simp add: empty)
  have c: "summary_panel (init ''purina'') empty_response = Inr EmptyPanel"
    using si by (simp add: empty)
  have snaps: "snapshots (snd (phase_5_in_flight ?srv ?s [])) =
      map (example_delivery ''on_track'')
        [Date 2025 8 1, Date 2025 8 3, Date 2025 8 6, Date 2025 8 9]"
    using phase_5_snapshots [of ?srv "example_delivery ''on_track''" ?s "[]"]
    by (simp only: days example_server_delivery) simp
  from ex obtain new where
    new: "snapshots (snd (phase_5_in_flight ?srv ?s [])) = snapshots [] @ new"
    and cpms: "cpms_shown (snd (phase_5_in_flight ?srv ?s [])) =
      cpms_shown [] @ map ?cpm (filter ?pos new)"
    by blast
  from new snaps have "new = map (example_delivery ''on_track'')
        [Date 2025 8 1, Date 2025 8 3, Date 2025 8 6, Date 2025 8 9]"
    by simp
  with cpms have e: "cpms_shown (snd (phase_5_in_flight ?srv ?s [])) = [32, 32, 32]"
    by (simp add: fields launch)
  have d: "map (\<lambda>r. get (r_impressions r) 0) (snapshots (snd (phase_5_in_flight ?srv ?s []))) =
       [0, 200000, 500000, 800000]"
    by (simp add: snaps fields launch)
  have quiet_snaps: "snapshots (snd (phase_5_in_flight silent_server ?s [])) =
      map (\<lambda>d. empty_response) (monitoring_days ?s)"
    using phase_5_snapshots [of silent_server "\<lambda>d. empty_response" ?s "[]"]
    by simp
  from sm obtain new' where
    new': "snapshots (snd (phase_5_in_flight silent_server ?s [])) = snapshots [] @ new'"
    and cpms': "cpms_shown (snd (phase_5_in_flight silent_server ?s [])) =
      cpms_shown [] @ map ?cpm (filter ?pos new')"
    by blast
  from new' quiet_snaps have "new' = map (\<lambda>d. empty_response) (monitoring_days ?s)"
    by simp
  with cpms' have f: "cpms_shown (snd (phase_5_in_flight silent_server ?s [])) = []"
    by (simp add: empty)
  from a b c d e f show ?thesis by blast
qed

section \<open>Claim C10: the gateway wrapper absorbs failed and contentless calls\<close>



end
